theory Spec2Isabelle
  imports Main
begin

section \<open>JavaScript values\<close>

text \<open>
  The two command-line clients of the repository are JavaScript. Where the code tests a value
  for truthiness (\<^verbatim>\<open>!token\<close>, \<^verbatim>\<open>a || b\<close>, \<^verbatim>\<open>if (refresh)\<close>) the model writes the test out:
  a string is truthy when it is not empty, a number when it is not zero, and an absent
  (\<^verbatim>\<open>undefined\<close>) value is falsy. Numbers are integers here: epoch seconds, epoch
  milliseconds, lifetimes in seconds and HTTP status codes.
\<close>

definition truthy_str :: "string option \<Rightarrow> bool" where
  "truthy_str v = (case v of None \<Rightarrow> False | Some s \<Rightarrow> s \<noteq> [])"

definition truthy_num :: "int option \<Rightarrow> bool" where
  "truthy_num v = (case v of None \<Rightarrow> False | Some n \<Rightarrow> n \<noteq> 0)"


datatype jsval = JUndefined | JNull | JBool bool | JNum int | JStr string
  | JObj "(string \<times> jsval) list"

text \<open>
  \<open>jsval\<close> is a decoded JSON document or a JavaScript argument: \<open>JObj\<close> lists the
  properties of an object in insertion order, with distinct keys. Arrays are left out: none
  of the code modelled here reads an element of one.
\<close>

fun js_truthy :: "jsval \<Rightarrow> bool" where
  "js_truthy JUndefined = False"
| "js_truthy JNull = False"
| "js_truthy (JBool b) = b"
| "js_truthy (JNum n) = (n \<noteq> 0)"
| "js_truthy (JStr s) = (s \<noteq> [])"
| "js_truthy (JObj fs) = True"

text \<open>\<^verbatim>\<open>a || b\<close>: the first operand when it is truthy, else the second.\<close>

definition js_or :: "jsval \<Rightarrow> jsval \<Rightarrow> jsval" where
  "js_or a b = (if js_truthy a then a else b)"

definition digit :: "nat \<Rightarrow> char" where
  "digit n = ''0123456789ABCDEF'' ! (n mod 16)"

fun string_of_nat :: "nat \<Rightarrow> string" where
  "string_of_nat n = (if n < 10 then [digit n] else string_of_nat (n div 10) @ [digit (n mod 10)])"

declare string_of_nat.simps [simp del]

definition string_of_int :: "int \<Rightarrow> string" where
  "string_of_int i = (if i < 0 then CHR ''-'' # string_of_nat (nat (- i)) else string_of_nat (nat i))"

text \<open>The string a template literal or \<^verbatim>\<open>String(v)\<close> makes of a value.\<close>

fun js_string :: "jsval \<Rightarrow> string" where
  "js_string JUndefined = ''undefined''"
| "js_string JNull = ''null''"
| "js_string (JBool b) = (if b then ''true'' else ''false'')"
| "js_string (JNum n) = string_of_int n"
| "js_string (JStr s) = s"
| "js_string (JObj fs) = ''[object Object]''"

text \<open>
  \<^verbatim>\<open>data.k\<close> for a data that is neither \<^verbatim>\<open>null\<close> nor \<^verbatim>\<open>undefined\<close> (there the access
  throws, and its callers below say so), for the property names the code reads
  (\<^verbatim>\<open>summary\<close>, \<^verbatim>\<open>detail\<close>, \<^verbatim>\<open>message\<close>), which no primitive value has.
  \<^verbatim>\<open>data?.k\<close> is \<^verbatim>\<open>undefined\<close> on \<^verbatim>\<open>null\<close> and \<^verbatim>\<open>undefined\<close> as well.
\<close>

fun js_prop :: "string \<Rightarrow> jsval \<Rightarrow> jsval" where
  "js_prop k (JObj fs) = (case map_of fs k of None \<Rightarrow> JUndefined | Some v \<Rightarrow> v)"
| "js_prop k v = JUndefined"

fun nullish :: "jsval \<Rightarrow> bool" where
  "nullish JUndefined = True"
| "nullish JNull = True"
| "nullish v = False"

text \<open>\<^verbatim>\<open>s.includes(p)\<close>\<close>

fun str_includes :: "string \<Rightarrow> string \<Rightarrow> bool" where
  "str_includes [] p = (p = [])"
| "str_includes (c # cs) p = (take (length p) (c # cs) = p \<or> str_includes cs p)"

text \<open>
  A thrown \<^verbatim>\<open>Error\<close>: its message and its \<^verbatim>\<open>status\<close> property, absent unless the code
  sets it. (lib/api.js also copies \<^verbatim>\<open>statusCode\<close>, \<^verbatim>\<open>detail\<close>, \<^verbatim>\<open>summary\<close>, \<^verbatim>\<open>type\<close> and
  the whole body onto the error; nothing below reads them.)
\<close>

record js_error =
  message :: string
  status :: "nat option"

definition Error :: "string \<Rightarrow> js_error" where
  "Error msg = \<lparr>message = msg, status = None\<rparr>"

section \<open>The configuration store of the nordigen client (lib/config.js)\<close>

text \<open>
  The store is the \<^verbatim>\<open>Conf\<close> instance created with the schema of lib/config.js: an optional
  \<^verbatim>\<open>auth\<close> object and an optional \<^verbatim>\<open>defaults\<close> object, every property of which may be
  absent. \<^verbatim>\<open>config.get('auth.x')\<close> is \<^verbatim>\<open>undefined\<close> when \<^verbatim>\<open>auth\<close> or \<^verbatim>\<open>x\<close> is absent;
  \<^verbatim>\<open>config.set('auth.x', v)\<close> creates \<^verbatim>\<open>auth\<close> when needed; \<^verbatim>\<open>config.delete('auth')\<close> removes
  the object; \<^verbatim>\<open>config.clear()\<close> removes every item (the schema declares no default).
\<close>

record auth_rec =
  secret_id :: "string option"
  secret_key :: "string option"
  access_token :: "string option"
  refresh_token :: "string option"
  access_expires :: "int option"
  refresh_expires :: "int option"

record defaults_rec =
  country :: "string option"
  institution_id :: "string option"

record store =
  auth :: "auth_rec option"
  defaults :: "defaults_rec option"

definition empty_auth :: auth_rec where
  "empty_auth = \<lparr>secret_id = None, secret_key = None, access_token = None,
     refresh_token = None, access_expires = None, refresh_expires = None\<rparr>"

definition empty_store :: store where
  "empty_store = \<lparr>auth = None, defaults = None\<rparr>"

definition get_auth :: "(auth_rec \<Rightarrow> 'a option) \<Rightarrow> store \<Rightarrow> 'a option" where
  "get_auth f s = (case auth s of None \<Rightarrow> None | Some a \<Rightarrow> f a)"

definition get_defaults :: "(defaults_rec \<Rightarrow> 'a option) \<Rightarrow> store \<Rightarrow> 'a option" where
  "get_defaults f s = (case defaults s of None \<Rightarrow> None | Some d \<Rightarrow> f d)"

definition set_auth :: "(auth_rec \<Rightarrow> auth_rec) \<Rightarrow> store \<Rightarrow> store" where
  "set_auth upd s = s\<lparr>auth := Some (upd (case auth s of None \<Rightarrow> empty_auth | Some a \<Rightarrow> a))\<rparr>"

definition delete_auth :: "store \<Rightarrow> store" where
  "delete_auth s = s\<lparr>auth := None\<rparr>"

text \<open>\<^verbatim>\<open>clear()\<close> of lib/config.js: \<^verbatim>\<open>getConfig().clear()\<close>, "Clear all configuration".\<close>

definition clear :: "store \<Rightarrow> store" where
  "clear s = empty_store"

text \<open>
  \<^verbatim>\<open>isAccessTokenValid\<close> and \<^verbatim>\<open>isRefreshTokenValid\<close>; \<open>now\<close> is
  \<^verbatim>\<open>Math.floor(Date.now() / 1000)\<close>, the clock reading of the call, in epoch seconds.
\<close>

definition isAccessTokenValid :: "store \<Rightarrow> int \<Rightarrow> bool" where
  "isAccessTokenValid s now =
     (let token = get_auth access_token s; expires = get_auth access_expires s
      in if \<not> truthy_str token \<or> \<not> truthy_num expires then False
         else (case expires of None \<Rightarrow> False | Some e \<Rightarrow> e > now + 60))"

definition isRefreshTokenValid :: "store \<Rightarrow> int \<Rightarrow> bool" where
  "isRefreshTokenValid s now =
     (let token = get_auth refresh_token s; expires = get_auth refresh_expires s
      in if \<not> truthy_str token \<or> \<not> truthy_num expires then False
         else (case expires of None \<Rightarrow> False | Some e \<Rightarrow> e > now + 60))"

section \<open>The API client of the nordigen client (lib/api.js)\<close>

text \<open>
  \<^verbatim>\<open>new NordigenAPI(accessToken)\<close>: the token is the constructor's argument when that is truthy,
  else \<^verbatim>\<open>getStoredToken()\<close>, which is \<^verbatim>\<open>config.get('auth.access_token') || null\<close>.
\<close>

record client =
  this_baseURL :: string
  this_accessToken :: "string option"

definition BASE_URL :: string where
  "BASE_URL = ''https://ob.nordigen.com''"

definition getStoredToken :: "store \<Rightarrow> string option" where
  "getStoredToken s = (let t = get_auth access_token s in if truthy_str t then t else None)"

definition NordigenAPI :: "string option \<Rightarrow> store \<Rightarrow> client" where
  "NordigenAPI accessToken s =
     \<lparr>this_baseURL = BASE_URL,
      this_accessToken = (if truthy_str accessToken then accessToken else getStoredToken s)\<rparr>"

definition createClient :: "store \<Rightarrow> client" where
  "createClient s = NordigenAPI None s"

text \<open>
  The options of \<^verbatim>\<open>request\<close>: \<^verbatim>\<open>body\<close> (\<open>JUndefined\<close> when not given), \<^verbatim>\<open>query\<close> (an object,
  when given) and \<^verbatim>\<open>auth\<close> (\<^verbatim>\<open>true\<close> when not given).
\<close>

record request_options =
  opt_body :: jsval
  opt_query :: "(string \<times> jsval) list option"
  opt_auth :: "bool option"

definition no_options :: request_options where
  "no_options = \<lparr>opt_body = JUndefined, opt_query = None, opt_auth = None\<rparr>"

text \<open>
  The request handed to \<^verbatim>\<open>fetch\<close>. \<open>req_body\<close> is the value that \<^verbatim>\<open>JSON.stringify\<close> turns
  into the body text.
\<close>

record http_request =
  req_method :: string
  req_url :: string
  req_headers :: "(string \<times> string) list"
  req_body :: "jsval option"

text \<open>
  \<^verbatim>\<open>url.searchParams.append(key, value)\<close> for every entry whose value is neither
  \<^verbatim>\<open>undefined\<close> nor \<^verbatim>\<open>null\<close>; the value is converted to a string.
\<close>

definition searchParams :: "(string \<times> jsval) list \<Rightarrow> (string \<times> string) list" where
  "searchParams query =
     map (\<lambda>(key, v). (key, js_string v))
       (filter (\<lambda>(key, v). v \<noteq> JUndefined \<and> v \<noteq> JNull) query)"

text \<open>
  \<^verbatim>\<open>url.toString()\<close> writes the search parameters in the
  \<^verbatim>\<open>application/x-www-form-urlencoded\<close> form: a space becomes \<^verbatim>\<open>+\<close>, the ASCII letters
  and digits and \<^verbatim>\<open>*-._\<close> stay, every other byte becomes \<^verbatim>\<open>%XX\<close>; a name and its value
  are joined by \<^verbatim>\<open>=\<close>, the pairs by \<^verbatim>\<open>&\<close>. Strings are byte strings in UTF-8.
\<close>

definition form_safe :: "char \<Rightarrow> bool" where
  "form_safe c \<longleftrightarrow> c \<in> set (''ABCDEFGHIJKLMNOPQRSTUVWXYZ'' @ ''abcdefghijklmnopqrstuvwxyz''
     @ ''0123456789'' @ ''*-._'')"

definition form_encode_char :: "char \<Rightarrow> string" where
  "form_encode_char c =
     (if c = CHR '' '' then ''+''
      else if form_safe c then [c]
      else [CHR ''%'', digit (of_char c div 16), digit (of_char c mod 16)])"

definition form_encode :: "string \<Rightarrow> string" where
  "form_encode s = concat (map form_encode_char s)"

fun join_amp :: "string list \<Rightarrow> string" where
  "join_amp [] = []"
| "join_amp [x] = x"
| "join_amp (x # y # ys) = x @ ''&'' @ join_amp (y # ys)"

definition form_pair :: "string \<times> string \<Rightarrow> string" where
  "form_pair kv = form_encode (fst kv) @ ''='' @ form_encode (snd kv)"

definition search_string :: "(string \<times> string) list \<Rightarrow> string" where
  "search_string ps = join_amp (map form_pair ps)"

text \<open>
  \<^verbatim>\<open>new URL(baseURL + endpoint)\<close> followed by \<^verbatim>\<open>url.toString()\<close>, for the base URL of the
  constructor and an endpoint that is a path the URL parser keeps as it is (\<open>path_safe\<close>
  below), as the literal endpoints of lib/api.js are.
\<close>

definition url_toString :: "string \<Rightarrow> string \<Rightarrow> (string \<times> string) list \<Rightarrow> string" where
  "url_toString base endpoint ps =
     base @ endpoint @ (if ps = [] then [] else ''?'' @ search_string ps)"

text \<open>
  The endpoints for which \<open>url_toString\<close> is what the URL parser gives: a path that starts
  with \<^verbatim>\<open>/\<close>, is made of ASCII letters, digits and \<^verbatim>\<open>/-._~\<close> only (so it has no \<^verbatim>\<open>?\<close>, no
  \<^verbatim>\<open>#\<close>, no space and no \<^verbatim>\<open>%\<close>) and has no segment \<^verbatim>\<open>.\<close> or \<^verbatim>\<open>..\<close>. For any other endpoint
  the parser may escape, split or refuse the text, which \<open>url_toString\<close> does not follow.
\<close>

definition path_char :: "char \<Rightarrow> bool" where
  "path_char c \<longleftrightarrow> c \<in> set (''ABCDEFGHIJKLMNOPQRSTUVWXYZ'' @ ''abcdefghijklmnopqrstuvwxyz''
     @ ''0123456789'' @ ''/-._~'')"

fun split_slash :: "string \<Rightarrow> string list" where
  "split_slash [] = [[]]"
| "split_slash (c # cs) =
     (if c = CHR ''/'' then [] # split_slash cs
      else (case split_slash cs of [] \<Rightarrow> [[c]] | seg # segs \<Rightarrow> (c # seg) # segs))"

definition path_safe :: "string \<Rightarrow> bool" where
  "path_safe endpoint \<longleftrightarrow>
     (case endpoint of [] \<Rightarrow> False | c # cs \<Rightarrow> c = CHR ''/'')
     \<and> list_all path_char endpoint
     \<and> ''.'' \<notin> set (split_slash endpoint) \<and> ''..'' \<notin> set (split_slash endpoint)"

text \<open>Lines 48 to 78 of \<^verbatim>\<open>request\<close>: the URL, the headers and the options of \<^verbatim>\<open>fetch\<close>.\<close>

definition build_request :: "client \<Rightarrow> string \<Rightarrow> string \<Rightarrow> request_options \<Rightarrow> http_request" where
  "build_request this method endpoint options =
     (let body = opt_body options;
          auth = (case opt_auth options of None \<Rightarrow> True | Some b \<Rightarrow> b);
          ps = (case opt_query options of None \<Rightarrow> [] | Some query \<Rightarrow> searchParams query);
          url = url_toString (this_baseURL this) endpoint ps;
          headers = [(''Content-Type'', ''application/json''), (''Accept'', ''application/json'')];
          headers = (if auth \<and> truthy_str (this_accessToken this)
                     then headers @ [(''Authorization'',
                            ''Bearer '' @ (case this_accessToken this of None \<Rightarrow> [] | Some t \<Rightarrow> t))]
                     else headers)
      in \<lparr>req_method = method, req_url = url, req_headers = headers,
          req_body = (if js_truthy body then Some body else None)\<rparr>)"

text \<open>
  What \<^verbatim>\<open>fetch\<close> resolves to. \<open>resp_json\<close> is what \<^verbatim>\<open>response.json()\<close> resolves to, \<open>None\<close>
  when it rejects (the body is not JSON); \<open>resp_text\<close> is what \<^verbatim>\<open>response.text()\<close> resolves to.
  A rejected \<^verbatim>\<open>fetch\<close> (no response: connection refused, DNS failure) is \<open>Inl\<close> of the
  message of the error it rejects with.
\<close>

record http_response =
  resp_status :: nat
  resp_statusText :: string
  resp_contentType :: "string option"
  resp_json :: "jsval option"
  resp_text :: string

definition resp_ok :: "http_response \<Rightarrow> bool" where
  "resp_ok r \<longleftrightarrow> 200 \<le> resp_status r \<and> resp_status r \<le> 299"

text \<open>
  Lines 84 to 91 of \<^verbatim>\<open>request\<close>: the body is decoded as JSON when the content type says so,
  and is the raw text otherwise.
\<close>

definition response_data :: "http_response \<Rightarrow> jsval option" where
  "response_data response =
     (if (case resp_contentType response of None \<Rightarrow> False
          | Some ct \<Rightarrow> ct \<noteq> [] \<and> str_includes ct ''application/json'')
      then resp_json response
      else Some (JStr (resp_text response)))"

text \<open>
  \<^verbatim>\<open>data.summary || data.detail || `HTTP ${response.status}: ${response.statusText}`\<close>, as the
  message of an \<^verbatim>\<open>Error\<close>.
\<close>

definition http_error_message :: "http_response \<Rightarrow> jsval \<Rightarrow> string" where
  "http_error_message response data =
     js_string (js_or (js_or (js_prop ''summary'' data) (js_prop ''detail'' data))
       (JStr (''HTTP '' @ string_of_nat (resp_status response) @ '': ''
              @ resp_statusText response)))"

text \<open>
  Lines 81 to 105 of \<^verbatim>\<open>request\<close>: a rejected \<^verbatim>\<open>fetch\<close> or \<^verbatim>\<open>response.json()\<close> is thrown on
  as it is; on a status that is not 2xx the error is built from the body, and reading
  \<^verbatim>\<open>data.summary\<close> of a body that is \<^verbatim>\<open>null\<close> throws a \<^verbatim>\<open>TypeError\<close> instead.
\<close>

definition handle_response :: "string + http_response \<Rightarrow> js_error + jsval" where
  "handle_response res =
     (case res of
        Inl failure \<Rightarrow> Inl (Error failure)
      | Inr response \<Rightarrow>
          (case response_data response of
             None \<Rightarrow> Inl (Error ''Unexpected token in JSON'')
           | Some data \<Rightarrow>
               if \<not> resp_ok response then
                 (if nullish data
                  then Inl (Error ''Cannot read properties of null (reading 'summary')'')
                  else Inl \<lparr>message = http_error_message response data,
                            status = Some (resp_status response)\<rparr>)
               else Inr data))"

text \<open>
  \<^verbatim>\<open>request\<close>: one \<^verbatim>\<open>fetch\<close>. The list is the log of the requests sent, oldest first.
\<close>

definition request ::
  "(http_request \<Rightarrow> string + http_response) \<Rightarrow> client \<Rightarrow> string \<Rightarrow> string \<Rightarrow> request_options
     \<Rightarrow> http_request list \<Rightarrow> (js_error + jsval) \<times> http_request list" where
  "request fetch this method endpoint options net =
     (let req = build_request this method endpoint options
      in (handle_response (fetch req), net @ [req]))"

section \<open>Authentication of the nordigen client (lib/auth.js)\<close>

text \<open>
  The token endpoints answer with the objects that the documentation comments of
  \<^verbatim>\<open>obtainToken\<close> and \<^verbatim>\<open>refreshToken\<close> declare: \<^verbatim>\<open>{access, access_expires}\<close> for a refresh, and
  with \<^verbatim>\<open>refresh\<close> and \<^verbatim>\<open>refresh_expires\<close> besides for a new token; the lifetimes are in seconds.
  The code reads no other property of an answer. (The response's \<^verbatim>\<open>access_expires\<close> is named
  \<open>access_expires_ttl\<close> here, the store having a property of that name.)
\<close>

record refresh_response =
  access :: string
  access_expires_ttl :: int

record token_response = refresh_response +
  refresh :: string
  refresh_expires_ttl :: int

text \<open>
  The network of the nordigen client: what \<^verbatim>\<open>fetch\<close> resolves to, and for the two token endpoints what
  \<^verbatim>\<open>request\<close> makes of the answer, an error or the object above.
\<close>

record api_env =
  fetch :: "http_request \<Rightarrow> string + http_response"
  token_new :: "http_request \<Rightarrow> js_error + token_response"
  token_refresh :: "http_request \<Rightarrow> js_error + refresh_response"

text \<open>The state: the persisted configuration and the log of the requests sent.\<close>

record world =
  cfg :: store
  net :: "http_request list"

definition str_val :: "string option \<Rightarrow> jsval" where
  "str_val v = (case v of None \<Rightarrow> JUndefined | Some s \<Rightarrow> JStr s)"

definition obtainToken_request :: "client \<Rightarrow> string \<Rightarrow> string \<Rightarrow> http_request" where
  "obtainToken_request this secretId secretKey =
     build_request this ''POST'' ''/api/v2/token/new/''
       \<lparr>opt_body = JObj [(''secret_id'', JStr secretId), (''secret_key'', JStr secretKey)],
        opt_query = None, opt_auth = Some False\<rparr>"

definition refreshToken_request :: "client \<Rightarrow> string option \<Rightarrow> http_request" where
  "refreshToken_request this refreshToken =
     build_request this ''POST'' ''/api/v2/token/refresh/''
       \<lparr>opt_body = JObj [(''refresh'', str_val refreshToken)],
        opt_query = None, opt_auth = Some False\<rparr>"

definition api_obtainToken ::
  "api_env \<Rightarrow> client \<Rightarrow> string \<Rightarrow> string \<Rightarrow> http_request list
     \<Rightarrow> (js_error + token_response) \<times> http_request list" where
  "api_obtainToken env this secretId secretKey log =
     (let req = obtainToken_request this secretId secretKey
      in (token_new env req, log @ [req]))"

definition api_refreshToken ::
  "api_env \<Rightarrow> client \<Rightarrow> string option \<Rightarrow> http_request list
     \<Rightarrow> (js_error + refresh_response) \<times> http_request list" where
  "api_refreshToken env this refreshToken log =
     (let req = refreshToken_request this refreshToken
      in (token_refresh env req, log @ [req]))"

definition refresh_failed :: string where
  "refresh_failed = ''Failed to refresh token. Please login again using: nordigen auth login''"

definition not_authenticated :: string where
  "not_authenticated =
     ''Not authenticated. Please login using: nordigen auth login --secret-id <id> --secret-key <key>''"

text \<open>
  \<^verbatim>\<open>ensureAuth\<close>. \<open>t1\<close> and \<open>t2\<close> are the clock readings of the two validity checks, \<open>t3\<close>
  the reading after the refresh call has answered, all in epoch seconds. The result is the
  error thrown or the value returned, which is what \<^verbatim>\<open>config.get\<close> gave in the first branch.
\<close>

definition ensureAuth ::
  "api_env \<Rightarrow> int \<Rightarrow> int \<Rightarrow> int \<Rightarrow> world \<Rightarrow> (js_error + string option) \<times> world" where
  "ensureAuth env t1 t2 t3 w =
     (if isAccessTokenValid (cfg w) t1 then (Inr (get_auth access_token (cfg w)), w)
      else if isRefreshTokenValid (cfg w) t2 then
        (let refreshToken = get_auth refresh_token (cfg w);
             api = createClient (cfg w);
             (res, log) = api_refreshToken env api refreshToken (net w)
         in case res of
              Inr result \<Rightarrow>
                (Inr (Some (access result)),
                 \<lparr>cfg = set_auth (access_expires_update (\<lambda>_. Some (t3 + access_expires_ttl result)))
                          (set_auth (access_token_update (\<lambda>_. Some (access result))) (cfg w)),
                  net = log\<rparr>)
            | Inl error \<Rightarrow> (Inl (Error refresh_failed), \<lparr>cfg = cfg w, net = log\<rparr>))
      else (Inl (Error not_authenticated), w))"

text \<open>\<^verbatim>\<open>login\<close>; \<open>now\<close> is the clock reading after the token call has answered.\<close>

definition login ::
  "api_env \<Rightarrow> int \<Rightarrow> string \<Rightarrow> string \<Rightarrow> world \<Rightarrow> (js_error + token_response) \<times> world" where
  "login env now secretId secretKey w =
     (let api = createClient (cfg w);
          (res, log) = api_obtainToken env api secretId secretKey (net w)
      in case res of
           Inl error \<Rightarrow> (Inl error, \<lparr>cfg = cfg w, net = log\<rparr>)
         | Inr result \<Rightarrow>
             (Inr result,
              \<lparr>cfg = set_auth (refresh_expires_update (\<lambda>_. Some (now + refresh_expires_ttl result)))
                      (set_auth (access_expires_update (\<lambda>_. Some (now + access_expires_ttl result)))
                      (set_auth (refresh_token_update (\<lambda>_. Some (refresh result)))
                      (set_auth (access_token_update (\<lambda>_. Some (access result)))
                      (set_auth (secret_key_update (\<lambda>_. Some secretKey))
                      (set_auth (secret_id_update (\<lambda>_. Some secretId)) (cfg w)))))),
               net = log\<rparr>))"

definition logout :: "world \<Rightarrow> world" where
  "logout w = w\<lparr>cfg := delete_auth (cfg w)\<rparr>"

section \<open>The command \<^verbatim>\<open>config show\<close> of the nordigen client (commands/config.js)\<close>

text \<open>
  What the command prints, as the calls of the printers of lib/output.js with their
  arguments: \<^verbatim>\<open>printJSON\<close> prints \<^verbatim>\<open>JSON.stringify\<close> of its argument, \<^verbatim>\<open>printRow\<close> a label and
  a value, \<^verbatim>\<open>printSection\<close> a title, \<^verbatim>\<open>console.log\<close> a line (the colours are left out).
\<close>

datatype out = PrintJSON store | PrintSection string | PrintRow string string | ConsoleLog string

definition REDACTED :: string where
  "REDACTED = ''***REDACTED***''"

definition redact_field :: "string option \<Rightarrow> string option" where
  "redact_field v = (if truthy_str v then Some REDACTED else v)"

text \<open>Lines 32 to 37: the copy \<^verbatim>\<open>safe\<close> of the store, with the secrets replaced.\<close>

definition redact :: "store \<Rightarrow> store" where
  "redact data =
     (case auth data of
        None \<Rightarrow> data
      | Some a \<Rightarrow>
          data\<lparr>auth := Some (a\<lparr>secret_key := redact_field (secret_key a),
                                 access_token := redact_field (access_token a),
                                 refresh_token := redact_field (refresh_token a)\<rparr>)\<rparr>)"

definition or_not_set :: "string option \<Rightarrow> string" where
  "or_not_set v = (case v of None \<Rightarrow> ''Not set'' | Some s \<Rightarrow> if s = [] then ''Not set'' else s)"

definition shown :: "string option \<Rightarrow> string" where
  "shown v = js_string (str_val v)"

definition show_token :: "bool \<Rightarrow> string option \<Rightarrow> string" where
  "show_token showSecrets v =
     (if truthy_str v then (if showSecrets then shown v else REDACTED) else ''Not set'')"

text \<open>
  The action of \<^verbatim>\<open>config show\<close>: \<open>json\<close> and \<open>showSecrets\<close> are the options \<^verbatim>\<open>--json\<close> and
  \<^verbatim>\<open>--show-secrets\<close>, \<open>path\<close> is \<^verbatim>\<open>getConfigPath()\<close>, \<open>data\<close> is \<^verbatim>\<open>config.store\<close>.
\<close>

definition config_show :: "bool \<Rightarrow> bool \<Rightarrow> string \<Rightarrow> store \<Rightarrow> out list" where
  "config_show json showSecrets path data =
     (if json then
        (if showSecrets then [PrintJSON data] else [PrintJSON (redact data)])
      else
        [PrintSection ''Configuration'', PrintRow ''Config File'' path,
         ConsoleLog [], ConsoleLog ''Authentication:'']
        @ (case auth data of
             Some a \<Rightarrow>
               [PrintRow ''  Secret ID'' (or_not_set (secret_id a)),
                PrintRow ''  Secret Key'' (if showSecrets then shown (secret_key a) else REDACTED),
                PrintRow ''  Access Token'' (show_token showSecrets (access_token a)),
                PrintRow ''  Refresh Token'' (show_token showSecrets (refresh_token a))]
           | None \<Rightarrow> [ConsoleLog ''  Not configured''])
        @ [ConsoleLog [], ConsoleLog ''Defaults:'']
        @ (case defaults data of
             Some d \<Rightarrow>
               [PrintRow ''  Country'' (or_not_set (country d)),
                PrintRow ''  Institution ID'' (or_not_set (institution_id d))]
           | None \<Rightarrow> [ConsoleLog ''  Not configured'']))"

text \<open>
  Two stores that differ at most in the values of \<^verbatim>\<open>auth.secret_key\<close>, \<^verbatim>\<open>auth.access_token\<close>
  and \<^verbatim>\<open>auth.refresh_token\<close>, each of the three being present (a non-empty string) in both
  stores or the same in both.
\<close>

definition redaction_eq :: "string option \<Rightarrow> string option \<Rightarrow> bool" where
  "redaction_eq x y \<longleftrightarrow> (truthy_str x \<and> truthy_str y) \<or> x = y"

definition same_but_secrets :: "store \<Rightarrow> store \<Rightarrow> bool" where
  "same_but_secrets c1 c2 \<longleftrightarrow>
     defaults c1 = defaults c2 \<and>
     (case (auth c1, auth c2) of
        (None, None) \<Rightarrow> True
      | (Some a1, Some a2) \<Rightarrow>
          secret_id a1 = secret_id a2 \<and> access_expires a1 = access_expires a2 \<and>
          refresh_expires a1 = refresh_expires a2 \<and>
          redaction_eq (secret_key a1) (secret_key a2) \<and>
          redaction_eq (access_token a1) (access_token a2) \<and>
          redaction_eq (refresh_token a1) (refresh_token a2)
      | _ \<Rightarrow> False)"

section \<open>The nordigencom client: configuration (config.js) and API (src/api.js)\<close>

text \<open>
  The configuration of the nordigencom client is the \<^verbatim>\<open>Conf\<close> instance of its config.js,
  whose schema gives every key a default: the empty string for the four strings and 0 for
  \<^verbatim>\<open>tokenExpiry\<close>, which is in epoch milliseconds. \<^verbatim>\<open>getConfig(key)\<close> reads a field and
  \<^verbatim>\<open>setConfig(key, value)\<close> updates it.
\<close>

record nconf =
  secretId :: string
  secretKey :: string
  accessToken :: string
  refreshToken :: string
  tokenExpiry :: int

text \<open>\<^verbatim>\<open>hasValidToken\<close>; \<open>now\<close> is \<^verbatim>\<open>Date.now()\<close>, in epoch milliseconds.\<close>

definition hasValidToken :: "nconf \<Rightarrow> int \<Rightarrow> bool" where
  "hasValidToken c now = (if accessToken c = [] then False else tokenExpiry c > now + 60000)"

text \<open>
  A call of \<^verbatim>\<open>axios\<close> (\<^verbatim>\<open>axios.post(url, data)\<close> is the call with the method \<^verbatim>\<open>post\<close>), and
  the error it rejects with: \<open>err_response\<close> is the status and the decoded body of the
  response when there is one, \<open>err_request\<close> says whether the request was sent. The
  environment gives the outcome of every call, the two token endpoints answering with the
  objects above, and \<^verbatim>\<open>JSON.stringify\<close>.
\<close>

record axios_config =
  ax_method :: string
  ax_url :: string
  ax_headers :: "(string \<times> string) list"
  ax_params :: "(string \<times> jsval) list option"
  ax_data :: "jsval option"

record axios_error =
  err_response :: "(nat \<times> jsval) option"
  err_request :: bool
  err_message :: string

record axios_env =
  post_token_new :: "axios_config \<Rightarrow> axios_error + token_response"
  post_token_refresh :: "axios_config \<Rightarrow> axios_error + refresh_response"
  axios :: "axios_config \<Rightarrow> axios_error + jsval"
  JSON_stringify :: "jsval \<Rightarrow> jsval"

record nworld =
  ncfg :: nconf
  nnet :: "axios_config list"

definition NORDIGEN_BASE_URL :: string where
  "NORDIGEN_BASE_URL = ''https://ob.nordigen.com/api/v2''"

definition axios_post :: "string \<Rightarrow> jsval \<Rightarrow> axios_config" where
  "axios_post url data =
     \<lparr>ax_method = ''post'', ax_url = url, ax_headers = [], ax_params = None, ax_data = Some data\<rparr>"

definition token_new_call :: "string \<Rightarrow> string \<Rightarrow> axios_config" where
  "token_new_call sid skey =
     axios_post (NORDIGEN_BASE_URL @ ''/token/new/'')
       (JObj [(''secret_id'', JStr sid), (''secret_key'', JStr skey)])"

definition token_refresh_call :: "string \<Rightarrow> axios_config" where
  "token_refresh_call rt =
     axios_post (NORDIGEN_BASE_URL @ ''/token/refresh/'') (JObj [(''refresh'', JStr rt)])"

definition credentials_not_configured :: string where
  "credentials_not_configured =
     ''Credentials not configured. Run: nordigencom config set --secret-id <id> --secret-key <key>''"

text \<open>\<^verbatim>\<open>error.response?.data?.summary || error.message\<close>\<close>

definition token_error_msg :: "axios_error \<Rightarrow> string" where
  "token_error_msg error =
     js_string (js_or (case err_response error of None \<Rightarrow> JUndefined
                       | Some (st, data) \<Rightarrow> js_prop ''summary'' data)
                      (JStr (err_message error)))"

text \<open>\<^verbatim>\<open>obtainAccessToken\<close>; \<open>now\<close> is \<^verbatim>\<open>Date.now()\<close> after the call has answered.\<close>

definition obtainAccessToken :: "axios_env \<Rightarrow> int \<Rightarrow> nworld \<Rightarrow> (js_error + string) \<times> nworld" where
  "obtainAccessToken env now w =
     (let sid = secretId (ncfg w); skey = secretKey (ncfg w)
      in if sid = [] \<or> skey = [] then (Inl (Error credentials_not_configured), w)
         else
           (let call = token_new_call sid skey; log = nnet w @ [call]
            in case post_token_new env call of
                 Inr r \<Rightarrow>
                   (Inr (access r),
                    \<lparr>ncfg = (ncfg w)\<lparr>accessToken := access r,
                               refreshToken := (if refresh r \<noteq> [] then refresh r else refreshToken (ncfg w)),
                               tokenExpiry := now + access_expires_ttl r * 1000\<rparr>,
                     nnet = log\<rparr>)
               | Inl error \<Rightarrow>
                   (Inl (Error (''Token request failed: '' @ token_error_msg error)),
                    \<lparr>ncfg = ncfg w, nnet = log\<rparr>)))"

text \<open>
  \<^verbatim>\<open>refreshAccessToken\<close>; \<open>now\<close> is \<^verbatim>\<open>Date.now()\<close> after the call that succeeds has
  answered.
\<close>

definition refreshAccessToken :: "axios_env \<Rightarrow> int \<Rightarrow> nworld \<Rightarrow> (js_error + string) \<times> nworld" where
  "refreshAccessToken env now w =
     (let rt = refreshToken (ncfg w)
      in if rt = [] then obtainAccessToken env now w
         else
           (let call = token_refresh_call rt; log = nnet w @ [call]
            in case post_token_refresh env call of
                 Inr r \<Rightarrow>
                   (Inr (access r),
                    \<lparr>ncfg = (ncfg w)\<lparr>accessToken := access r,
                               tokenExpiry := now + access_expires_ttl r * 1000\<rparr>,
                     nnet = log\<rparr>)
               | Inl error \<Rightarrow> obtainAccessToken env now \<lparr>ncfg = ncfg w, nnet = log\<rparr>))"

text \<open>\<^verbatim>\<open>getAccessToken\<close>; \<open>t0\<close> is the clock reading of \<^verbatim>\<open>hasValidToken\<close>.\<close>

definition getAccessToken :: "axios_env \<Rightarrow> int \<Rightarrow> int \<Rightarrow> nworld \<Rightarrow> (js_error + string) \<times> nworld" where
  "getAccessToken env t0 now w =
     (if hasValidToken (ncfg w) t0 then (Inr (accessToken (ncfg w)), w)
      else refreshAccessToken env now w)"

text \<open>
  \<^verbatim>\<open>data?.summary || data?.detail || data?.message || JSON.stringify(data)\<close>, with
  \<^verbatim>\<open>JSON.stringify\<close> taken from the environment.
\<close>

definition api_error_text :: "axios_env \<Rightarrow> jsval \<Rightarrow> jsval" where
  "api_error_text env data =
     js_or (js_or (js_or (js_prop ''summary'' data) (js_prop ''detail'' data))
                  (js_prop ''message'' data)) (JSON_stringify env data)"

definition no_response :: string where
  "no_response = ''No response from Nordigen API. Check your internet connection.''"

text \<open>\<^verbatim>\<open>handleApiError\<close>, which throws on every path; the result is the error thrown.\<close>

definition handleApiError :: "axios_env \<Rightarrow> axios_error \<Rightarrow> js_error" where
  "handleApiError env error =
     (case err_response error of
        Some (st, data) \<Rightarrow>
          if st = 401 then Error ''Authentication failed. Run: nordigencom auth login''
          else if st = 403 then Error ''Access forbidden. Check your API permissions.''
          else if st = 404 then Error ''Resource not found.''
          else if st = 429 then Error ''Rate limit exceeded. Please wait before retrying.''
          else
            (let m = api_error_text env data
             in Error (''API Error ('' @ string_of_nat st @ ''): '' @ js_string m))
      | None \<Rightarrow>
          if err_request error then Error no_response
          else Error (err_message error))"

text \<open>
  \<^verbatim>\<open>apiRequest\<close>: \<open>data\<close> is \<open>JNull\<close> and \<open>params\<close> is \<open>None\<close> when they are not given.
\<close>

definition api_config :: "string \<Rightarrow> string \<Rightarrow> string \<Rightarrow> jsval \<Rightarrow> (string \<times> jsval) list option \<Rightarrow> axios_config" where
  "api_config token method endpoint data params =
     \<lparr>ax_method = method, ax_url = NORDIGEN_BASE_URL @ endpoint,
      ax_headers = [(''Authorization'', ''Bearer '' @ token), (''Accept'', ''application/json''),
                    (''Content-Type'', ''application/json'')],
      ax_params = params,
      ax_data = (if js_truthy data then Some data else None)\<rparr>"

definition apiRequest ::
  "axios_env \<Rightarrow> int \<Rightarrow> int \<Rightarrow> string \<Rightarrow> string \<Rightarrow> jsval \<Rightarrow> (string \<times> jsval) list option
     \<Rightarrow> nworld \<Rightarrow> (js_error + jsval) \<times> nworld" where
  "apiRequest env t0 now method endpoint data params w =
     (case getAccessToken env t0 now w of
        (Inl error, w1) \<Rightarrow> (Inl error, w1)
      | (Inr token, w1) \<Rightarrow>
          (let config = api_config token method endpoint data params;
               w2 = w1\<lparr>nnet := nnet w1 @ [config]\<rparr>
           in case axios env config of
                Inr rdata \<Rightarrow> (Inr rdata, w2)
              | Inl error \<Rightarrow> (Inl (handleApiError env error), w2)))"

section \<open>Scenarios\<close>

text \<open>
  The scenario of the specification: the credentials \<^verbatim>\<open>{id: "A", key: "B"}\<close>, and a
  token endpoint that answers \<^verbatim>\<open>{access: "tok1", refresh: "ref1", access_expires: 3600,
  refresh_expires: 2592000}\<close>. In \<open>demo_env\<close> and \<open>demo_axios\<close> the refresh endpoint
  answers with a new access token and every other request is refused (no connection for
  \<^verbatim>\<open>fetch\<close>, the status 401 with the summary \<^verbatim>\<open>Invalid token\<close> for \<^verbatim>\<open>axios\<close>); in
  \<open>refused_env\<close> and \<open>refused_axios\<close> the refresh endpoint refuses too, in \<open>short_axios\<close> the refresh token
  of the answer lives one second, in \<open>locked_axios\<close> the token endpoint refuses, in
  \<open>boom_axios\<close> and \<open>boom_env\<close> a request is answered with the status 500, in
  \<open>unauthorized_env\<close> with the status 401, and in \<open>offline_axios\<close> nothing is answered. The stores and states hold the
  credentials alone (\<open>world_AB\<close>, \<open>nworld_AB\<close>), an expired access token with a refresh
  token (\<open>world_ref0\<close>, \<open>nworld_ref0\<close>) or a valid access token (\<open>store_tok1\<close>,
  \<open>store_tok9\<close>, \<open>nworld_tok0\<close>). \<open>unauthorized_response\<close> is the response of the test of
  the error handling in test/api.test.js, \<open>test_client\<close> the client of that file.
\<close>

definition tok1 :: token_response where
  "tok1 = \<lparr>access = ''tok1'', access_expires_ttl = 3600, refresh = ''ref1'',
     refresh_expires_ttl = 2592000\<rparr>"

definition tok2 :: refresh_response where
  "tok2 = \<lparr>access = ''tok2'', access_expires_ttl = 3600\<rparr>"

definition connection_refused :: axios_error where
  "connection_refused = \<lparr>err_response = None, err_request = True,
     err_message = ''connect ECONNREFUSED''\<rparr>"

definition invalid_token_401 :: axios_error where
  "invalid_token_401 = \<lparr>err_response = Some (401, JObj [(''summary'', JStr ''Invalid token'')]),
     err_request = True, err_message = ''Request failed with status code 401''\<rparr>"

definition demo_env :: api_env where
  "demo_env = \<lparr>fetch = (\<lambda>req. Inl ''connect ECONNREFUSED''),
     token_new = (\<lambda>req. Inr tok1), token_refresh = (\<lambda>req. Inr tok2)\<rparr>"

definition refused_env :: api_env where
  "refused_env = demo_env\<lparr>token_refresh :=
     (\<lambda>req. Inl \<lparr>message = ''Invalid token'', status = Some 401\<rparr>)\<rparr>"

definition demo_axios :: axios_env where
  "demo_axios = \<lparr>post_token_new = (\<lambda>call. Inr tok1), post_token_refresh = (\<lambda>call. Inr tok2),
     axios = (\<lambda>call. Inl invalid_token_401), JSON_stringify = (\<lambda>v. JStr ''{}'')\<rparr>"

definition refused_axios :: axios_env where
  "refused_axios = demo_axios\<lparr>post_token_refresh := (\<lambda>call. Inl invalid_token_401)\<rparr>"

definition short_axios :: axios_env where
  "short_axios = demo_axios\<lparr>post_token_new := (\<lambda>call. Inr (tok1\<lparr>refresh_expires_ttl := 1\<rparr>))\<rparr>"

definition creds_AB :: auth_rec where
  "creds_AB = empty_auth\<lparr>secret_id := Some ''A'', secret_key := Some ''B''\<rparr>"

definition nconf_AB :: nconf where
  "nconf_AB = \<lparr>secretId = ''A'', secretKey = ''B'', accessToken = [], refreshToken = [],
     tokenExpiry = 0\<rparr>"

definition store_tok1 :: store where
  "store_tok1 = \<lparr>auth = Some (creds_AB\<lparr>access_token := Some ''tok1'', access_expires := Some 1100\<rparr>),
     defaults = Some \<lparr>country = Some ''GB'', institution_id = None\<rparr>\<rparr>"

definition store_tok9 :: store where
  "store_tok9 = \<lparr>auth = Some (creds_AB\<lparr>secret_key := Some ''Z'', access_token := Some ''tok9'',
       access_expires := Some 1100\<rparr>),
     defaults = Some \<lparr>country = Some ''GB'', institution_id = None\<rparr>\<rparr>"

definition offline_axios :: axios_env where
  "offline_axios = \<lparr>post_token_new = (\<lambda>call. Inl connection_refused),
     post_token_refresh = (\<lambda>call. Inl connection_refused),
     axios = (\<lambda>call. Inl connection_refused), JSON_stringify = (\<lambda>v. JStr ''{}'')\<rparr>"

definition world_AB :: world where
  "world_AB = \<lparr>cfg = \<lparr>auth = Some creds_AB, defaults = None\<rparr>, net = []\<rparr>"

definition world_ref0 :: world where
  "world_ref0 =
     \<lparr>cfg = \<lparr>auth = Some (creds_AB\<lparr>access_token := Some ''tok0'', refresh_token := Some ''ref0'',
                     access_expires := Some 1030, refresh_expires := Some 90000\<rparr>),
             defaults = None\<rparr>,
      net = []\<rparr>"

definition nworld_AB :: nworld where
  "nworld_AB = \<lparr>ncfg = nconf_AB, nnet = []\<rparr>"

definition nworld_ref0 :: nworld where
  "nworld_ref0 =
     \<lparr>ncfg = nconf_AB\<lparr>accessToken := ''tok0'', refreshToken := ''ref0'', tokenExpiry := 1000\<rparr>,
      nnet = []\<rparr>"

definition unauthorized_response :: http_response where
  "unauthorized_response =
     \<lparr>resp_status = 401, resp_statusText = ''Unauthorized'',
      resp_contentType = Some ''application/json'',
      resp_json = Some (JObj [(''status_code'', JNum 401), (''summary'', JStr ''Invalid token''),
                              (''detail'', JStr ''Token is invalid or expired'')]),
      resp_text = []\<rparr>"

definition server_error_response :: http_response where
  "server_error_response =
     \<lparr>resp_status = 500, resp_statusText = ''Internal Server Error'',
      resp_contentType = Some ''application/json'',
      resp_json = Some (JObj [(''message'', JStr ''boom'')]),
      resp_text = []\<rparr>"

definition nworld_tok0 :: nworld where
  "nworld_tok0 =
     \<lparr>ncfg = nconf_AB\<lparr>accessToken := ''tok0'', tokenExpiry := 9000000\<rparr>, nnet = []\<rparr>"

definition boom_500 :: axios_error where
  "boom_500 = \<lparr>err_response = Some (500, JObj [(''detail'', JStr ''boom'')]),
     err_request = True, err_message = ''Request failed with status code 500''\<rparr>"

definition boom_axios :: axios_env where
  "boom_axios = demo_axios\<lparr>axios := (\<lambda>call. Inl boom_500)\<rparr>"

definition boom_env :: api_env where
  "boom_env = demo_env\<lparr>fetch := (\<lambda>req. Inr server_error_response)\<rparr>"

definition unauthorized_env :: api_env where
  "unauthorized_env = demo_env\<lparr>fetch := (\<lambda>req. Inr unauthorized_response)\<rparr>"

definition locked_axios :: axios_env where
  "locked_axios = demo_axios\<lparr>post_token_new := (\<lambda>call. Inl invalid_token_401)\<rparr>"

definition test_client :: client where
  "test_client = \<lparr>this_baseURL = BASE_URL, this_accessToken = Some ''test-token''\<rparr>"

definition test_query :: "(string \<times> jsval) list" where
  "test_query = [(''country'', JStr ''GB''), (''date_from'', JUndefined), (''limit'', JNum 10),
     (''q'', JStr ''a b&c'')]"

section \<open>Validity of the stored access token\<close>

text \<open>
  Claim C2. \<^verbatim>\<open>isAccessTokenValid()\<close> is true exactly when an access token is stored, an expiry
  is stored and the expiry is greater than \<open>now + 60\<close>. Stored is the code's own test,
  \<^verbatim>\<open>!token || !expires\<close>: the token is a non-empty string and the expiry is not 0, which the
  comparison implies for every clock reading from the epoch on. An expiry of exactly
  \<open>now + 60\<close> is invalid, and so is a store without a token or without an expiry.
\<close>

theorem isAccessTokenValid_spec:
  "(isAccessTokenValid s now \<longleftrightarrow>
      (\<exists>t e. get_auth access_token s = Some t \<and> t \<noteq> [] \<and>
             get_auth access_expires s = Some e \<and> e \<noteq> 0 \<and> e > now + 60))
   \<and> (0 \<le> now \<longrightarrow>
        (isAccessTokenValid s now \<longleftrightarrow>
           (\<exists>t e. get_auth access_token s = Some t \<and> t \<noteq> [] \<and>
                  get_auth access_expires s = Some e \<and> e > now + 60)))
   \<and> (get_auth access_expires s = Some (now + 60) \<longrightarrow> \<not> isAccessTokenValid s now)
   \<and> (get_auth access_token s = None \<or> get_auth access_expires s = None
        \<longrightarrow> \<not> isAccessTokenValid s now)"
  by (auto simp: isAccessTokenValid_def Let_def truthy_str_def truthy_num_def
      split: option.splits)

theorem isAccessTokenValid_spec_witness:
  "(0::int) \<le> 1000 \<and> isAccessTokenValid store_tok1 1000
   \<and> get_auth access_expires store_tok1 = Some (1040 + 60) \<and> \<not> isAccessTokenValid store_tok1 1040
   \<and> get_auth access_token empty_store = None \<and> \<not> isAccessTokenValid empty_store 1000"
  using isAccessTokenValid_spec [of store_tok1 1000] isAccessTokenValid_spec [of store_tok1 1040]
    isAccessTokenValid_spec [of empty_store 1000]
  by (simp add: store_tok1_def creds_AB_def get_auth_def empty_auth_def empty_store_def)

section \<open>Clearing the authentication\<close>

text \<open>
  Claim C5, as amended. \<^verbatim>\<open>logout\<close> removes the \<^verbatim>\<open>auth\<close> object, so that the credentials and the
  token pair are absent afterwards, and leaves every field outside it (the defaults) and the
  network log as they were. \<^verbatim>\<open>clear\<close> removes the whole configuration, the defaults too.
\<close>

theorem logout_removes_auth_only:
  "auth (cfg (logout w)) = None
   \<and> get_auth secret_id (cfg (logout w)) = None
   \<and> get_auth secret_key (cfg (logout w)) = None
   \<and> get_auth access_token (cfg (logout w)) = None
   \<and> get_auth refresh_token (cfg (logout w)) = None
   \<and> get_auth access_expires (cfg (logout w)) = None
   \<and> get_auth refresh_expires (cfg (logout w)) = None
   \<and> defaults (cfg (logout w)) = defaults (cfg w)
   \<and> net (logout w) = net w
   \<and> auth (clear s) = None \<and> defaults (clear s) = None"
  by (simp add: logout_def delete_auth_def get_auth_def clear_def empty_store_def)

text \<open>
  The claim as stated fails for \<^verbatim>\<open>clear\<close>: a default country set before is gone afterwards.
\<close>

theorem clear_removes_defaults_counterexample:
  "get_defaults country store_tok1 = Some ''GB''
   \<and> get_defaults country (clear store_tok1) = None"
  by (simp add: store_tok1_def clear_def empty_store_def get_defaults_def)

section \<open>Secrets in the output of \<^verbatim>\<open>config show\<close>\<close>

lemma redact_field_eq: "redaction_eq x y \<Longrightarrow> redact_field x = redact_field y"
  by (auto simp: redaction_eq_def redact_field_def)

lemma show_token_eq: "redaction_eq x y \<Longrightarrow> show_token False x = show_token False y"
  by (auto simp: redaction_eq_def show_token_def)

lemma redact_eq: "same_but_secrets c1 c2 \<Longrightarrow> redact c1 = redact c2"
  by (cases c1; cases c2)
    (auto simp: same_but_secrets_def redact_def split: option.splits dest!: redact_field_eq)

lemma config_show_eq:
  "same_but_secrets c1 c2 \<Longrightarrow> config_show json False path c1 = config_show json False path c2"
proof (cases json)
  case True
  assume "same_but_secrets c1 c2"
  with True show ?thesis by (simp add: config_show_def redact_eq)
next
  case False
  assume "same_but_secrets c1 c2"
  with False show ?thesis
    by (auto simp: config_show_def same_but_secrets_def split: option.splits dest!: show_token_eq)
qed

lemma redact_fields:
  "get_auth secret_key (redact c) = redact_field (get_auth secret_key c)"
  "get_auth access_token (redact c) = redact_field (get_auth access_token c)"
  "get_auth refresh_token (redact c) = redact_field (get_auth refresh_token c)"
  by (simp_all add: redact_def get_auth_def redact_field_def truthy_str_def split: option.splits)

text \<open>
  Claim C10. Without \<^verbatim>\<open>--show-secrets\<close>, two stores that differ only in the values of the
  secret key, the access token and the refresh token give the same output, in the JSON form
  and in the table form. In the JSON form each of the three, when present, is replaced by
  \<^verbatim>\<open>***REDACTED***\<close>; in the table form the secret key row always shows it and a token row
  shows it when the token is present.
\<close>

theorem config_show_hides_secrets:
  "(same_but_secrets c1 c2 \<longrightarrow> config_show json False path c1 = config_show json False path c2)
   \<and> config_show True False path c = [PrintJSON (redact c)]
   \<and> get_auth secret_key (redact c)
       = (if truthy_str (get_auth secret_key c) then Some REDACTED else get_auth secret_key c)
   \<and> get_auth access_token (redact c)
       = (if truthy_str (get_auth access_token c) then Some REDACTED else get_auth access_token c)
   \<and> get_auth refresh_token (redact c)
       = (if truthy_str (get_auth refresh_token c) then Some REDACTED else get_auth refresh_token c)
   \<and> (auth c = Some a \<longrightarrow>
        PrintRow ''  Secret Key'' REDACTED \<in> set (config_show False False path c)
        \<and> PrintRow ''  Access Token'' (if truthy_str (access_token a) then REDACTED else ''Not set'')
            \<in> set (config_show False False path c)
        \<and> PrintRow ''  Refresh Token'' (if truthy_str (refresh_token a) then REDACTED else ''Not set'')
            \<in> set (config_show False False path c))"
  by (simp add: config_show_eq redact_fields redact_field_def)
    (simp add: config_show_def show_token_def)

theorem config_show_hides_secrets_witness:
  "same_but_secrets store_tok1 store_tok9 \<and> store_tok1 \<noteq> store_tok9
   \<and> config_show True False ''/home/u/config.json'' store_tok1
       = config_show True False ''/home/u/config.json'' store_tok9
   \<and> config_show False False ''/home/u/config.json'' store_tok1
       = config_show False False ''/home/u/config.json'' store_tok9
   \<and> auth store_tok1 = Some (creds_AB\<lparr>access_token := Some ''tok1'', access_expires := Some 1100\<rparr>)
   \<and> PrintRow ''  Access Token'' REDACTED
        \<in> set (config_show False False ''/home/u/config.json'' store_tok1)"
  using config_show_hides_secrets [of store_tok1 store_tok9 True "''/home/u/config.json''" store_tok1
      "creds_AB\<lparr>access_token := Some ''tok1'', access_expires := Some 1100\<rparr>"]
    config_show_hides_secrets [of store_tok1 store_tok9 False "''/home/u/config.json''" store_tok1
      "creds_AB\<lparr>access_token := Some ''tok1'', access_expires := Some 1100\<rparr>"]
  by (simp add: same_but_secrets_def redaction_eq_def truthy_str_def store_tok1_def store_tok9_def
      creds_AB_def empty_auth_def)

section \<open>The token life cycle\<close>

subsection \<open>The nordigencom client\<close>

lemma obtainAccessToken_no_credentials:
  "secretId (ncfg u) = [] \<or> secretKey (ncfg u) = [] \<Longrightarrow>
   obtainAccessToken aenv now u = (Inl (Error credentials_not_configured), u)"
  by (auto simp: obtainAccessToken_def Let_def)

lemma obtainAccessToken_log:
  "secretId (ncfg u) \<noteq> [] \<Longrightarrow> secretKey (ncfg u) \<noteq> [] \<Longrightarrow>
   nnet (snd (obtainAccessToken aenv now u))
     = nnet u @ [token_new_call (secretId (ncfg u)) (secretKey (ncfg u))]"
  by (auto simp: obtainAccessToken_def Let_def split: sum.splits)

lemma obtainAccessToken_success:
  "secretId (ncfg u) \<noteq> [] \<Longrightarrow> secretKey (ncfg u) \<noteq> [] \<Longrightarrow>
   post_token_new aenv (token_new_call (secretId (ncfg u)) (secretKey (ncfg u))) = Inr r \<Longrightarrow>
   obtainAccessToken aenv now u =
     (Inr (access r),
      \<lparr>ncfg = (ncfg u)\<lparr>accessToken := access r,
                 refreshToken := (if refresh r \<noteq> [] then refresh r else refreshToken (ncfg u)),
                 tokenExpiry := now + access_expires_ttl r * 1000\<rparr>,
       nnet = nnet u @ [token_new_call (secretId (ncfg u)) (secretKey (ncfg u))]\<rparr>)"
  by (simp add: obtainAccessToken_def Let_def)

lemma getAccessToken_no_refresh_token:
  "\<not> hasValidToken (ncfg v) t0 \<Longrightarrow> refreshToken (ncfg v) = [] \<Longrightarrow>
   getAccessToken aenv t0 now v = obtainAccessToken aenv now v"
  by (simp add: getAccessToken_def refreshAccessToken_def)

lemma getAccessToken_refresh_failure:
  "\<not> hasValidToken (ncfg v) t0 \<Longrightarrow> refreshToken (ncfg v) \<noteq> [] \<Longrightarrow>
   post_token_refresh aenv (token_refresh_call (refreshToken (ncfg v))) = Inl e \<Longrightarrow>
   getAccessToken aenv t0 now v
     = obtainAccessToken aenv now
         \<lparr>ncfg = ncfg v, nnet = nnet v @ [token_refresh_call (refreshToken (ncfg v))]\<rparr>"
  by (simp add: getAccessToken_def refreshAccessToken_def Let_def)

lemma getAccessToken_refresh_success:
  "\<not> hasValidToken (ncfg v) t0 \<Longrightarrow> refreshToken (ncfg v) \<noteq> [] \<Longrightarrow>
   post_token_refresh aenv (token_refresh_call (refreshToken (ncfg v))) = Inr r \<Longrightarrow>
   getAccessToken aenv t0 now v
     = (Inr (access r),
        \<lparr>ncfg = (ncfg v)\<lparr>accessToken := access r, tokenExpiry := now + access_expires_ttl r * 1000\<rparr>,
         nnet = nnet v @ [token_refresh_call (refreshToken (ncfg v))]\<rparr>)"
  by (simp add: getAccessToken_def refreshAccessToken_def Let_def)

lemma obtainAccessToken_expiry:
  "ncfg (snd (obtainAccessToken aenv now u)) = ncfg u
   \<or> (\<exists>r. post_token_new aenv (token_new_call (secretId (ncfg u)) (secretKey (ncfg u))) = Inr r
          \<and> accessToken (ncfg (snd (obtainAccessToken aenv now u))) = access r
          \<and> tokenExpiry (ncfg (snd (obtainAccessToken aenv now u)))
              = now + access_expires_ttl r * 1000)"
  by (auto simp: obtainAccessToken_def Let_def split: sum.splits)

lemma getAccessToken_expiry:
  "ncfg (snd (getAccessToken aenv t0 now v)) = ncfg v
   \<or> (\<exists>r. post_token_refresh aenv (token_refresh_call (refreshToken (ncfg v))) = Inr r
          \<and> accessToken (ncfg (snd (getAccessToken aenv t0 now v))) = access r
          \<and> tokenExpiry (ncfg (snd (getAccessToken aenv t0 now v)))
              = now + access_expires_ttl r * 1000)
   \<or> (\<exists>r. post_token_new aenv (token_new_call (secretId (ncfg v)) (secretKey (ncfg v))) = Inr r
          \<and> accessToken (ncfg (snd (getAccessToken aenv t0 now v))) = access r
          \<and> tokenExpiry (ncfg (snd (getAccessToken aenv t0 now v)))
              = now + access_expires_ttl r * 1000)"
  by (auto simp: getAccessToken_def refreshAccessToken_def obtainAccessToken_def Let_def
      split: sum.splits)

subsection \<open>The nordigen client\<close>

lemma ensureAuth_no_tokens:
  "\<not> isAccessTokenValid (cfg w) t1 \<Longrightarrow> \<not> isRefreshTokenValid (cfg w) t2 \<Longrightarrow>
   ensureAuth env t1 t2 t3 w = (Inl (Error not_authenticated), w)"
  by (simp add: ensureAuth_def)

lemma ensureAuth_refresh_log:
  "\<not> isAccessTokenValid (cfg w) t1 \<Longrightarrow> isRefreshTokenValid (cfg w) t2 \<Longrightarrow>
   net (snd (ensureAuth env t1 t2 t3 w))
     = net w @ [refreshToken_request (createClient (cfg w)) (get_auth refresh_token (cfg w))]"
  by (simp add: ensureAuth_def api_refreshToken_def Let_def split: sum.splits)

lemma ensureAuth_refresh_success:
  assumes "\<not> isAccessTokenValid (cfg w) t1" "isRefreshTokenValid (cfg w) t2"
    and "token_refresh env
           (refreshToken_request (createClient (cfg w)) (get_auth refresh_token (cfg w))) = Inr r"
  shows "fst (ensureAuth env t1 t2 t3 w) = Inr (Some (access r))"
    and "get_auth access_token (cfg (snd (ensureAuth env t1 t2 t3 w))) = Some (access r)"
    and "get_auth access_expires (cfg (snd (ensureAuth env t1 t2 t3 w)))
           = Some (t3 + access_expires_ttl r)"
    and "get_auth refresh_token (cfg (snd (ensureAuth env t1 t2 t3 w)))
           = get_auth refresh_token (cfg w)"
    and "get_auth refresh_expires (cfg (snd (ensureAuth env t1 t2 t3 w)))
           = get_auth refresh_expires (cfg w)"
    and "get_auth secret_id (cfg (snd (ensureAuth env t1 t2 t3 w))) = get_auth secret_id (cfg w)"
    and "get_auth secret_key (cfg (snd (ensureAuth env t1 t2 t3 w))) = get_auth secret_key (cfg w)"
    and "defaults (cfg (snd (ensureAuth env t1 t2 t3 w))) = defaults (cfg w)"
  using assms
  by (simp_all add: ensureAuth_def api_refreshToken_def Let_def get_auth_def set_auth_def
      empty_auth_def split: option.splits)

lemma ensureAuth_refresh_failure:
  "\<not> isAccessTokenValid (cfg w) t1 \<Longrightarrow> isRefreshTokenValid (cfg w) t2 \<Longrightarrow>
   token_refresh env
     (refreshToken_request (createClient (cfg w)) (get_auth refresh_token (cfg w))) = Inl e \<Longrightarrow>
   ensureAuth env t1 t2 t3 w
     = (Inl (Error refresh_failed),
        \<lparr>cfg = cfg w,
         net = net w @ [refreshToken_request (createClient (cfg w)) (get_auth refresh_token (cfg w))]\<rparr>)"
  by (simp add: ensureAuth_def api_refreshToken_def Let_def)

lemma refreshToken_request_shape:
  "req_url (refreshToken_request this rt) = this_baseURL this @ ''/api/v2/token/refresh/''"
  "req_method (refreshToken_request this rt) = ''POST''"
  "map_of (req_headers (refreshToken_request this rt)) ''Authorization'' = None"
  by (simp_all add: refreshToken_request_def build_request_def url_toString_def Let_def)

lemma ensureAuth_refresh_fields:
  "get_auth refresh_token (cfg (snd (ensureAuth env t1 t2 t3 w))) = get_auth refresh_token (cfg w)"
  "get_auth refresh_expires (cfg (snd (ensureAuth env t1 t2 t3 w))) = get_auth refresh_expires (cfg w)"
  by (simp_all add: ensureAuth_def api_refreshToken_def Let_def get_auth_def set_auth_def
      empty_auth_def split: option.splits sum.splits)

lemma ensureAuth_expiry:
  "cfg (snd (ensureAuth env t1 t2 t3 w)) = cfg w
   \<or> (\<exists>r. token_refresh env
            (refreshToken_request (createClient (cfg w)) (get_auth refresh_token (cfg w))) = Inr r
          \<and> get_auth access_token (cfg (snd (ensureAuth env t1 t2 t3 w))) = Some (access r)
          \<and> get_auth access_expires (cfg (snd (ensureAuth env t1 t2 t3 w)))
              = Some (t3 + access_expires_ttl r))"
  by (auto simp: ensureAuth_def api_refreshToken_def Let_def get_auth_def set_auth_def
      empty_auth_def split: option.splits sum.splits)

lemma login_success:
  assumes "token_new env (obtainToken_request (createClient (cfg w)) sid skey) = Inr r"
  shows "fst (login env now sid skey w) = Inr r"
    and "net (snd (login env now sid skey w))
           = net w @ [obtainToken_request (createClient (cfg w)) sid skey]"
    and "auth (cfg (snd (login env now sid skey w))) =
           Some \<lparr>secret_id = Some sid, secret_key = Some skey, access_token = Some (access r),
                 refresh_token = Some (refresh r),
                 access_expires = Some (now + access_expires_ttl r),
                 refresh_expires = Some (now + refresh_expires_ttl r)\<rparr>"
    and "defaults (cfg (snd (login env now sid skey w))) = defaults (cfg w)"
  using assms
  by (simp_all add: login_def api_obtainToken_def Let_def set_auth_def empty_auth_def
      split: option.splits)

subsection \<open>No valid token\<close>

text \<open>
  Claim C1, as amended. With no valid access token and no valid refresh token, \<^verbatim>\<open>ensureAuth\<close>
  fails with the not-authenticated error, sends nothing and changes nothing, whether or not
  credentials are stored: acquiring a token is \<^verbatim>\<open>login\<close>. \<^verbatim>\<open>getAccessToken\<close> with no valid
  token goes on to \<^verbatim>\<open>obtainAccessToken\<close>, at once when no refresh token is stored and after
  the one refresh call when that call fails. \<^verbatim>\<open>obtainAccessToken\<close> fails with the
  credentials-not-configured error and sends nothing when a credential is empty; otherwise it
  sends exactly one call to the token endpoint, and when that answers it stores the access
  token, its expiry and the refresh token (if not empty) and returns the access token.
\<close>

theorem ensureAccessToken_without_tokens:
  "(\<not> isAccessTokenValid (cfg w) t1 \<and> \<not> isRefreshTokenValid (cfg w) t2
      \<longrightarrow> ensureAuth env t1 t2 t3 w = (Inl (Error not_authenticated), w))
   \<and> (\<not> hasValidToken (ncfg v) t0 \<and> refreshToken (ncfg v) = []
      \<longrightarrow> getAccessToken aenv t0 now v = obtainAccessToken aenv now v)
   \<and> (\<not> hasValidToken (ncfg v) t0 \<and> refreshToken (ncfg v) \<noteq> []
       \<and> post_token_refresh aenv (token_refresh_call (refreshToken (ncfg v))) = Inl e
      \<longrightarrow> getAccessToken aenv t0 now v
           = obtainAccessToken aenv now
               \<lparr>ncfg = ncfg v, nnet = nnet v @ [token_refresh_call (refreshToken (ncfg v))]\<rparr>)
   \<and> (secretId (ncfg u) = [] \<or> secretKey (ncfg u) = []
      \<longrightarrow> obtainAccessToken aenv now u = (Inl (Error credentials_not_configured), u))
   \<and> (secretId (ncfg u) \<noteq> [] \<and> secretKey (ncfg u) \<noteq> []
      \<longrightarrow> nnet (snd (obtainAccessToken aenv now u))
            = nnet u @ [token_new_call (secretId (ncfg u)) (secretKey (ncfg u))]
          \<and> (post_token_new aenv (token_new_call (secretId (ncfg u)) (secretKey (ncfg u))) = Inr r
              \<longrightarrow> obtainAccessToken aenv now u =
                   (Inr (access r),
                    \<lparr>ncfg = (ncfg u)\<lparr>accessToken := access r,
                        refreshToken := (if refresh r \<noteq> [] then refresh r else refreshToken (ncfg u)),
                        tokenExpiry := now + access_expires_ttl r * 1000\<rparr>,
                     nnet = nnet u @ [token_new_call (secretId (ncfg u)) (secretKey (ncfg u))]\<rparr>)))"
  using ensureAuth_no_tokens [of w t1 t2 env t3]
    getAccessToken_no_refresh_token [of v t0 aenv now]
    getAccessToken_refresh_failure [of v t0 aenv e now]
    obtainAccessToken_no_credentials [of u aenv now]
    obtainAccessToken_log [of u aenv now]
    obtainAccessToken_success [of u aenv r now]
  by blast

theorem ensureAccessToken_without_tokens_witness:
  "\<not> isAccessTokenValid (cfg world_AB) 1000 \<and> \<not> isRefreshTokenValid (cfg world_AB) 1000
   \<and> ensureAuth demo_env 1000 1000 1001 world_AB = (Inl (Error not_authenticated), world_AB)
   \<and> \<not> hasValidToken (ncfg nworld_AB) 1000000 \<and> refreshToken (ncfg nworld_AB) = []
   \<and> secretId (ncfg nworld_AB) \<noteq> [] \<and> secretKey (ncfg nworld_AB) \<noteq> []
   \<and> post_token_new demo_axios (token_new_call (secretId (ncfg nworld_AB)) (secretKey (ncfg nworld_AB)))
       = Inr tok1
   \<and> getAccessToken demo_axios 1000000 1000001 nworld_AB
       = (Inr ''tok1'',
          \<lparr>ncfg = \<lparr>secretId = ''A'', secretKey = ''B'', accessToken = ''tok1'',
                   refreshToken = ''ref1'', tokenExpiry = 4600001\<rparr>,
           nnet = [token_new_call ''A'' ''B'']\<rparr>)
   \<and> \<not> hasValidToken (ncfg nworld_ref0) 1000000 \<and> refreshToken (ncfg nworld_ref0) \<noteq> []
   \<and> post_token_refresh refused_axios (token_refresh_call (refreshToken (ncfg nworld_ref0)))
       = Inl invalid_token_401
   \<and> nnet (snd (getAccessToken refused_axios 1000000 1000001 nworld_ref0))
       = [token_refresh_call ''ref0'', token_new_call ''A'' ''B'']
   \<and> secretId (ncfg (nworld_AB\<lparr>ncfg := nconf_AB\<lparr>secretKey := []\<rparr>\<rparr>)) \<noteq> []
   \<and> secretKey (ncfg (nworld_AB\<lparr>ncfg := nconf_AB\<lparr>secretKey := []\<rparr>\<rparr>)) = []
   \<and> getAccessToken demo_axios 1000000 1000001 (nworld_AB\<lparr>ncfg := nconf_AB\<lparr>secretKey := []\<rparr>\<rparr>)
       = (Inl (Error credentials_not_configured), nworld_AB\<lparr>ncfg := nconf_AB\<lparr>secretKey := []\<rparr>\<rparr>)"
  using ensureAccessToken_without_tokens [of world_AB 1000 1000 demo_env 1001 nworld_AB 1000000
      demo_axios 1000001 invalid_token_401 nworld_AB tok1]
    ensureAccessToken_without_tokens [of world_AB 1000 1000 demo_env 1001 nworld_ref0 1000000
      refused_axios 1000001 invalid_token_401
      "\<lparr>ncfg = ncfg nworld_ref0,
        nnet = nnet nworld_ref0 @ [token_refresh_call (refreshToken (ncfg nworld_ref0))]\<rparr>" tok1]
    ensureAccessToken_without_tokens [of world_AB 1000 1000 demo_env 1001
      "nworld_AB\<lparr>ncfg := nconf_AB\<lparr>secretKey := []\<rparr>\<rparr>" 1000000
      demo_axios 1000001 invalid_token_401 "nworld_AB\<lparr>ncfg := nconf_AB\<lparr>secretKey := []\<rparr>\<rparr>" tok1]
  by (simp add: isAccessTokenValid_def isRefreshTokenValid_def get_auth_def
      creds_AB_def empty_auth_def truthy_str_def truthy_num_def hasValidToken_def
      nworld_AB_def nworld_ref0_def world_AB_def nconf_AB_def
      demo_axios_def refused_axios_def tok1_def Let_def)

text \<open>
  The claim as stated fails for \<^verbatim>\<open>ensureAuth\<close>: with the credentials stored and no token, it
  fails and sends nothing.
\<close>

theorem ensureAuth_never_acquires_counterexample:
  "get_auth secret_id (cfg world_AB) = Some ''A'' \<and> get_auth secret_key (cfg world_AB) = Some ''B''
   \<and> \<not> isAccessTokenValid (cfg world_AB) 1000 \<and> \<not> isRefreshTokenValid (cfg world_AB) 1000
   \<and> fst (ensureAuth demo_env 1000 1000 1001 world_AB) = Inl (Error not_authenticated)
   \<and> net (snd (ensureAuth demo_env 1000 1000 1001 world_AB)) = []"
  by (simp add: ensureAuth_def isAccessTokenValid_def isRefreshTokenValid_def get_auth_def
      creds_AB_def empty_auth_def truthy_str_def world_AB_def)

subsection \<open>Refreshing\<close>

text \<open>
  Claim C3, as amended. With no valid access token and a valid refresh token, \<^verbatim>\<open>ensureAuth\<close>
  sends exactly one request, to the refresh endpoint, and never changes the stored refresh
  token and its expiry; when the call succeeds it returns the new access token and updates
  only the access token and its expiry; when it fails the error is the refresh-failed one
  and the store is unchanged. \<^verbatim>\<open>getAccessToken\<close> with no valid token and a refresh token
  stored first sends one refresh call; when it succeeds that is the only call, and only the
  access token and its expiry change; when it fails \<^verbatim>\<open>obtainAccessToken\<close> runs next.
\<close>

theorem refresh_with_valid_refresh_token:
  "(\<not> isAccessTokenValid (cfg w) t1 \<and> isRefreshTokenValid (cfg w) t2 \<longrightarrow>
      net (snd (ensureAuth env t1 t2 t3 w))
        = net w @ [refreshToken_request (createClient (cfg w)) (get_auth refresh_token (cfg w))]
      \<and> req_url (refreshToken_request (createClient (cfg w)) (get_auth refresh_token (cfg w)))
          = BASE_URL @ ''/api/v2/token/refresh/''
      \<and> get_auth refresh_token (cfg (snd (ensureAuth env t1 t2 t3 w))) = get_auth refresh_token (cfg w)
      \<and> get_auth refresh_expires (cfg (snd (ensureAuth env t1 t2 t3 w)))
          = get_auth refresh_expires (cfg w)
      \<and> (token_refresh env
            (refreshToken_request (createClient (cfg w)) (get_auth refresh_token (cfg w))) = Inr r
          \<longrightarrow> fst (ensureAuth env t1 t2 t3 w) = Inr (Some (access r))
              \<and> get_auth access_token (cfg (snd (ensureAuth env t1 t2 t3 w))) = Some (access r)
              \<and> get_auth access_expires (cfg (snd (ensureAuth env t1 t2 t3 w)))
                  = Some (t3 + access_expires_ttl r)
              \<and> get_auth secret_id (cfg (snd (ensureAuth env t1 t2 t3 w)))
                  = get_auth secret_id (cfg w)
              \<and> get_auth secret_key (cfg (snd (ensureAuth env t1 t2 t3 w)))
                  = get_auth secret_key (cfg w)
              \<and> defaults (cfg (snd (ensureAuth env t1 t2 t3 w))) = defaults (cfg w))
      \<and> (token_refresh env
            (refreshToken_request (createClient (cfg w)) (get_auth refresh_token (cfg w))) = Inl e
          \<longrightarrow> fst (ensureAuth env t1 t2 t3 w) = Inl (Error refresh_failed)
              \<and> cfg (snd (ensureAuth env t1 t2 t3 w)) = cfg w))
   \<and> (\<not> hasValidToken (ncfg v) t0 \<and> refreshToken (ncfg v) \<noteq> [] \<longrightarrow>
        (post_token_refresh aenv (token_refresh_call (refreshToken (ncfg v))) = Inr r
          \<longrightarrow> getAccessToken aenv t0 now v
               = (Inr (access r),
                  \<lparr>ncfg = (ncfg v)\<lparr>accessToken := access r,
                             tokenExpiry := now + access_expires_ttl r * 1000\<rparr>,
                   nnet = nnet v @ [token_refresh_call (refreshToken (ncfg v))]\<rparr>))
        \<and> (post_token_refresh aenv (token_refresh_call (refreshToken (ncfg v))) = Inl ae
          \<longrightarrow> getAccessToken aenv t0 now v
               = obtainAccessToken aenv now
                   \<lparr>ncfg = ncfg v, nnet = nnet v @ [token_refresh_call (refreshToken (ncfg v))]\<rparr>))"
proof -
  have A: "req_url (refreshToken_request (createClient (cfg w)) (get_auth refresh_token (cfg w)))
          = BASE_URL @ ''/api/v2/token/refresh/''"
    by (simp add: refreshToken_request_shape createClient_def NordigenAPI_def)
  show ?thesis
    using A ensureAuth_refresh_log [of w t1 t2 env t3]
      ensureAuth_refresh_fields [of env t1 t2 t3 w]
      ensureAuth_refresh_success [of w t1 t2 env r t3]
      ensureAuth_refresh_failure [of w t1 t2 env e t3]
      getAccessToken_refresh_success [of v t0 aenv r now]
      getAccessToken_refresh_failure [of v t0 aenv ae now]
    by simp
qed

theorem refresh_with_valid_refresh_token_witness:
  "\<not> isAccessTokenValid (cfg world_ref0) 1000 \<and> isRefreshTokenValid (cfg world_ref0) 1000
   \<and> token_refresh demo_env
        (refreshToken_request (createClient (cfg world_ref0)) (get_auth refresh_token (cfg world_ref0)))
       = Inr tok2
   \<and> fst (ensureAuth demo_env 1000 1000 1001 world_ref0) = Inr (Some ''tok2'')
   \<and> net (snd (ensureAuth demo_env 1000 1000 1001 world_ref0))
       = [\<lparr>req_method = ''POST'', req_url = ''https://ob.nordigen.com/api/v2/token/refresh/'',
           req_headers = [(''Content-Type'', ''application/json''), (''Accept'', ''application/json'')],
           req_body = Some (JObj [(''refresh'', JStr ''ref0'')])\<rparr>]
   \<and> get_auth access_token (cfg (snd (ensureAuth demo_env 1000 1000 1001 world_ref0))) = Some ''tok2''
   \<and> get_auth access_expires (cfg (snd (ensureAuth demo_env 1000 1000 1001 world_ref0))) = Some 4601
   \<and> get_auth refresh_token (cfg (snd (ensureAuth demo_env 1000 1000 1001 world_ref0))) = Some ''ref0''
   \<and> get_auth refresh_expires (cfg (snd (ensureAuth demo_env 1000 1000 1001 world_ref0))) = Some 90000
   \<and> \<not> hasValidToken (ncfg nworld_ref0) 1000000 \<and> refreshToken (ncfg nworld_ref0) \<noteq> []
   \<and> post_token_refresh demo_axios (token_refresh_call (refreshToken (ncfg nworld_ref0))) = Inr tok2
   \<and> getAccessToken demo_axios 1000000 1000001 nworld_ref0
       = (Inr ''tok2'',
          \<lparr>ncfg = \<lparr>secretId = ''A'', secretKey = ''B'', accessToken = ''tok2'',
                   refreshToken = ''ref0'', tokenExpiry = 4600001\<rparr>,
           nnet = [token_refresh_call ''ref0'']\<rparr>)
   \<and> token_refresh refused_env
        (refreshToken_request (createClient (cfg world_ref0)) (get_auth refresh_token (cfg world_ref0)))
       = Inl \<lparr>message = ''Invalid token'', status = Some 401\<rparr>
   \<and> fst (ensureAuth refused_env 1000 1000 1001 world_ref0) = Inl (Error refresh_failed)
   \<and> cfg (snd (ensureAuth refused_env 1000 1000 1001 world_ref0)) = cfg world_ref0
   \<and> length (net (snd (ensureAuth refused_env 1000 1000 1001 world_ref0))) = 1
   \<and> post_token_refresh refused_axios (token_refresh_call (refreshToken (ncfg nworld_ref0)))
       = Inl invalid_token_401
   \<and> getAccessToken refused_axios 1000000 1000001 nworld_ref0
       = obtainAccessToken refused_axios 1000001
           \<lparr>ncfg = ncfg nworld_ref0, nnet = [token_refresh_call ''ref0'']\<rparr>"
  using refresh_with_valid_refresh_token [of world_ref0 1000 1000 demo_env 1001 tok2
      "\<lparr>message = [], status = None\<rparr>" nworld_ref0 1000000 demo_axios 1000001 connection_refused]
    refresh_with_valid_refresh_token [of world_ref0 1000 1000 refused_env 1001 tok2
      "\<lparr>message = ''Invalid token'', status = Some 401\<rparr>" nworld_ref0 1000000 refused_axios
      1000001 invalid_token_401]
  by (simp add: isAccessTokenValid_def isRefreshTokenValid_def get_auth_def
      creds_AB_def empty_auth_def truthy_str_def truthy_num_def hasValidToken_def
      nworld_ref0_def world_ref0_def nconf_AB_def demo_env_def refused_env_def refused_axios_def
      demo_axios_def tok2_def Let_def
      refreshToken_request_def build_request_def createClient_def NordigenAPI_def getStoredToken_def
      BASE_URL_def url_toString_def str_val_def)

text \<open>
  The claim as stated fails for \<^verbatim>\<open>getAccessToken\<close>: when the refresh call gets no answer, a
  call to the token endpoint follows it.
\<close>

theorem refresh_failure_acquires_counterexample:
  "\<not> hasValidToken (ncfg nworld_ref0) 1000000 \<and> refreshToken (ncfg nworld_ref0) = ''ref0''
   \<and> nnet (snd (getAccessToken offline_axios 1000000 1000001 nworld_ref0))
       = [token_refresh_call ''ref0'', token_new_call ''A'' ''B'']
   \<and> ax_url (token_new_call ''A'' ''B'') = ''https://ob.nordigen.com/api/v2/token/new/''"
  by (simp add: getAccessToken_def refreshAccessToken_def obtainAccessToken_def hasValidToken_def
      nworld_ref0_def nconf_AB_def offline_axios_def connection_refused_def Let_def
      token_new_call_def axios_post_def NORDIGEN_BASE_URL_def)

subsection \<open>Acquiring\<close>

text \<open>
  Claim C6, as amended. A successful \<^verbatim>\<open>login\<close> sends exactly one request, to the
  token endpoint, and stores the credentials and both tokens, with the expiries \<open>t\<close> plus the
  lifetimes of the answer, \<open>t\<close> being the clock reading in epoch seconds once the call has
  answered. A successful \<^verbatim>\<open>obtainAccessToken\<close> sends exactly one call and stores the access
  token with \<^verbatim>\<open>tokenExpiry\<close> the clock reading in milliseconds plus 1000 times the lifetime,
  and the refresh token, if not empty, with no expiry. \<^verbatim>\<open>ensureAuth\<close> never changes the
  refresh token and its expiry, and it leaves the store as it is unless it replaces the
  access token by the one a refresh call returned, with the expiry computed from that
  answer; \<^verbatim>\<open>getAccessToken\<close> likewise.
\<close>

theorem acquisition_persists_tokens:
  "(token_new env (obtainToken_request (createClient (cfg w)) sid skey) = Inr r \<longrightarrow>
      fst (login env t sid skey w) = Inr r
      \<and> net (snd (login env t sid skey w))
          = net w @ [obtainToken_request (createClient (cfg w)) sid skey]
      \<and> auth (cfg (snd (login env t sid skey w))) =
           Some \<lparr>secret_id = Some sid, secret_key = Some skey, access_token = Some (access r),
                 refresh_token = Some (refresh r),
                 access_expires = Some (t + access_expires_ttl r),
                 refresh_expires = Some (t + refresh_expires_ttl r)\<rparr>)
   \<and> (secretId (ncfg u) \<noteq> [] \<and> secretKey (ncfg u) \<noteq> []
       \<and> post_token_new aenv (token_new_call (secretId (ncfg u)) (secretKey (ncfg u))) = Inr r
      \<longrightarrow> obtainAccessToken aenv now u =
           (Inr (access r),
            \<lparr>ncfg = (ncfg u)\<lparr>accessToken := access r,
                refreshToken := (if refresh r \<noteq> [] then refresh r else refreshToken (ncfg u)),
                tokenExpiry := now + access_expires_ttl r * 1000\<rparr>,
             nnet = nnet u @ [token_new_call (secretId (ncfg u)) (secretKey (ncfg u))]\<rparr>))
   \<and> get_auth refresh_token (cfg (snd (ensureAuth env t1 t2 t3 w))) = get_auth refresh_token (cfg w)
   \<and> get_auth refresh_expires (cfg (snd (ensureAuth env t1 t2 t3 w))) = get_auth refresh_expires (cfg w)
   \<and> (cfg (snd (ensureAuth env t1 t2 t3 w)) = cfg w
       \<or> (\<exists>rr. token_refresh env
                (refreshToken_request (createClient (cfg w)) (get_auth refresh_token (cfg w))) = Inr rr
              \<and> get_auth access_token (cfg (snd (ensureAuth env t1 t2 t3 w))) = Some (access rr)
              \<and> get_auth access_expires (cfg (snd (ensureAuth env t1 t2 t3 w)))
                  = Some (t3 + access_expires_ttl rr)))
   \<and> (ncfg (snd (getAccessToken aenv t0 now u)) = ncfg u
       \<or> (\<exists>rr. post_token_refresh aenv (token_refresh_call (refreshToken (ncfg u))) = Inr rr
              \<and> accessToken (ncfg (snd (getAccessToken aenv t0 now u))) = access rr
              \<and> tokenExpiry (ncfg (snd (getAccessToken aenv t0 now u)))
                  = now + access_expires_ttl rr * 1000)
       \<or> (\<exists>rr. post_token_new aenv (token_new_call (secretId (ncfg u)) (secretKey (ncfg u))) = Inr rr
              \<and> accessToken (ncfg (snd (getAccessToken aenv t0 now u))) = access rr
              \<and> tokenExpiry (ncfg (snd (getAccessToken aenv t0 now u)))
                  = now + access_expires_ttl rr * 1000))"
  using login_success [of env w sid skey r t]
    obtainAccessToken_success [of u aenv r now]
    ensureAuth_refresh_fields [of env t1 t2 t3 w]
    ensureAuth_expiry [of env t1 t2 t3 w]
    getAccessToken_expiry [of aenv t0 now u]
  by simp

theorem acquisition_persists_tokens_witness:
  "token_new demo_env (obtainToken_request (createClient (cfg world_AB)) ''A'' ''B'') = Inr tok1
   \<and> net (snd (login demo_env 1000 ''A'' ''B'' world_AB))
       = [\<lparr>req_method = ''POST'', req_url = ''https://ob.nordigen.com/api/v2/token/new/'',
           req_headers = [(''Content-Type'', ''application/json''), (''Accept'', ''application/json'')],
           req_body = Some (JObj [(''secret_id'', JStr ''A''), (''secret_key'', JStr ''B'')])\<rparr>]
   \<and> auth (cfg (snd (login demo_env 1000 ''A'' ''B'' world_AB))) =
        Some \<lparr>secret_id = Some ''A'', secret_key = Some ''B'', access_token = Some ''tok1'',
              refresh_token = Some ''ref1'', access_expires = Some 4600,
              refresh_expires = Some 2593000\<rparr>
   \<and> isAccessTokenValid (cfg (snd (login demo_env 1000 ''A'' ''B'' world_AB))) 1000
   \<and> secretId (ncfg nworld_AB) \<noteq> [] \<and> secretKey (ncfg nworld_AB) \<noteq> []
   \<and> post_token_new demo_axios (token_new_call (secretId (ncfg nworld_AB)) (secretKey (ncfg nworld_AB)))
       = Inr tok1
   \<and> obtainAccessToken demo_axios 1000000 nworld_AB
       = (Inr ''tok1'',
          \<lparr>ncfg = \<lparr>secretId = ''A'', secretKey = ''B'', accessToken = ''tok1'',
                   refreshToken = ''ref1'', tokenExpiry = 4600000\<rparr>,
           nnet = [token_new_call ''A'' ''B'']\<rparr>)"
  using acquisition_persists_tokens [of demo_env world_AB "''A''" "''B''" tok1 1000 nworld_AB
      demo_axios 1000000 1000 1000 1000 1000000]
  by (simp add: isAccessTokenValid_def get_auth_def truthy_str_def truthy_num_def
      creds_AB_def empty_auth_def nworld_AB_def world_AB_def nconf_AB_def demo_env_def
      demo_axios_def tok1_def Let_def
      obtainToken_request_def build_request_def createClient_def NordigenAPI_def getStoredToken_def
      BASE_URL_def url_toString_def)

text \<open>
  The claim as stated fails for \<^verbatim>\<open>obtainAccessToken\<close>: the stored configuration has no
  expiry of the refresh token, and is the same whatever \<^verbatim>\<open>refresh_expires\<close> the answer has.
\<close>

theorem refresh_expiry_not_persisted_counterexample:
  "post_token_new demo_axios (token_new_call ''A'' ''B'') = Inr tok1
   \<and> refresh_expires_ttl tok1 = 2592000
   \<and> post_token_new short_axios (token_new_call ''A'' ''B'') = Inr (tok1\<lparr>refresh_expires_ttl := 1\<rparr>)
   \<and> ncfg (snd (obtainAccessToken demo_axios 1000000 nworld_AB))
       = \<lparr>secretId = ''A'', secretKey = ''B'', accessToken = ''tok1'', refreshToken = ''ref1'',
          tokenExpiry = 4600000\<rparr>
   \<and> ncfg (snd (obtainAccessToken short_axios 1000000 nworld_AB))
       = ncfg (snd (obtainAccessToken demo_axios 1000000 nworld_AB))"
  by (simp add: obtainAccessToken_def nworld_AB_def nconf_AB_def demo_axios_def short_axios_def
      tok1_def Let_def)

section \<open>Requests\<close>

lemma apiRequest_token_error:
  "getAccessToken aenv t0 now v = (Inl e, v1) \<Longrightarrow>
   apiRequest aenv t0 now m ep data params v = (Inl e, v1)"
  by (simp add: apiRequest_def)

lemma apiRequest_token_ok:
  "getAccessToken aenv t0 now v = (Inr tok, v1) \<Longrightarrow>
   nnet (snd (apiRequest aenv t0 now m ep data params v))
     = nnet v1 @ [api_config tok m ep data params]
   \<and> ncfg (snd (apiRequest aenv t0 now m ep data params v)) = ncfg v1"
  by (simp add: apiRequest_def Let_def split: sum.splits)

lemma api_config_authorization:
  "map_of (ax_headers (api_config tok m ep data params)) ''Authorization'' = Some (''Bearer '' @ tok)"
  by (simp add: api_config_def)

lemma build_request_authorization:
  "map_of (req_headers (build_request this m ep options)) ''Authorization''
     = (case this_accessToken this of
          None \<Rightarrow> None
        | Some t \<Rightarrow> if t \<noteq> [] \<and> opt_auth options \<noteq> Some False then Some (''Bearer '' @ t) else None)"
  by (auto simp: build_request_def Let_def truthy_str_def split: option.splits)

lemma getAccessToken_log_prefix:
  "\<exists>calls. nnet (snd (getAccessToken aenv t0 now v)) = nnet v @ calls"
  by (auto simp: getAccessToken_def refreshAccessToken_def obtainAccessToken_def Let_def
      split: sum.splits)

lemma ensureAuth_then_createClient:
  "fst (ensureAuth env t1 t2 t3 w) = Inr (Some tok) \<Longrightarrow> tok \<noteq> [] \<Longrightarrow>
   this_accessToken (createClient (cfg (snd (ensureAuth env t1 t2 t3 w)))) = Some tok"
  by (auto simp: ensureAuth_def api_refreshToken_def Let_def createClient_def NordigenAPI_def
      getStoredToken_def truthy_str_def get_auth_def set_auth_def empty_auth_def
      split: if_splits sum.splits option.splits)

text \<open>
  Claim C4, as amended. \<^verbatim>\<open>apiRequest\<close> first runs \<^verbatim>\<open>getAccessToken\<close>: when that fails the
  error is passed on and no request is sent; when it returns a token, the request is sent
  after the token calls, with the header \<^verbatim>\<open>Authorization: Bearer\<close> and that token.
  \<^verbatim>\<open>NordigenAPI.request\<close> sends its one request without resolving a token: the header is there,
  with the token the client was made with, exactly when that token is not empty and the
  option \<^verbatim>\<open>auth\<close> is not false. The commands call \<^verbatim>\<open>ensureAuth\<close> and then \<^verbatim>\<open>createClient\<close>,
  which gives the client the token that \<^verbatim>\<open>ensureAuth\<close> returned.
\<close>

theorem request_bearer_token:
  "(getAccessToken aenv t0 now v = (Inl e, v1)
      \<longrightarrow> apiRequest aenv t0 now m ep data params v = (Inl e, v1))
   \<and> (getAccessToken aenv t0 now v = (Inr tok, v1)
      \<longrightarrow> nnet (snd (apiRequest aenv t0 now m ep data params v))
            = nnet v1 @ [api_config tok m ep data params]
          \<and> map_of (ax_headers (api_config tok m ep data params)) ''Authorization''
              = Some (''Bearer '' @ tok))
   \<and> (\<exists>calls. nnet (snd (getAccessToken aenv t0 now v)) = nnet v @ calls)
   \<and> request fch this verb path options log
       = (handle_response (fch (build_request this verb path options)),
          log @ [build_request this verb path options])
   \<and> map_of (req_headers (build_request this verb path options)) ''Authorization''
       = (case this_accessToken this of
            None \<Rightarrow> None
          | Some t \<Rightarrow> if t \<noteq> [] \<and> opt_auth options \<noteq> Some False
                      then Some (''Bearer '' @ t) else None)
   \<and> (fst (ensureAuth env t1 t2 t3 w) = Inr (Some tok) \<and> tok \<noteq> []
      \<longrightarrow> this_accessToken (createClient (cfg (snd (ensureAuth env t1 t2 t3 w)))) = Some tok)"
  using apiRequest_token_error [of aenv t0 now v e v1 m ep data params]
    apiRequest_token_ok [of aenv t0 now v tok v1 m ep data params]
    api_config_authorization [of tok m ep data params]
    build_request_authorization [of this verb path options]
    ensureAuth_then_createClient [of env t1 t2 t3 w tok]
    getAccessToken_log_prefix [of aenv t0 now v]
  by (simp add: request_def Let_def)

theorem request_bearer_token_witness:
  "getAccessToken demo_axios 1000000 1000001 nworld_AB
     = (Inr ''tok1'',
        \<lparr>ncfg = \<lparr>secretId = ''A'', secretKey = ''B'', accessToken = ''tok1'',
                 refreshToken = ''ref1'', tokenExpiry = 4600001\<rparr>,
         nnet = [token_new_call ''A'' ''B'']\<rparr>)
   \<and> nnet (snd (apiRequest demo_axios 1000000 1000001 ''GET'' ''/institutions/'' JNull
                  (Some [(''country'', JStr ''GB'')]) nworld_AB))
       = [token_new_call ''A'' ''B'',
          \<lparr>ax_method = ''GET'', ax_url = ''https://ob.nordigen.com/api/v2/institutions/'',
           ax_headers = [(''Authorization'', ''Bearer tok1''), (''Accept'', ''application/json''),
                         (''Content-Type'', ''application/json'')],
           ax_params = Some [(''country'', JStr ''GB'')], ax_data = None\<rparr>]
   \<and> getAccessToken demo_axios 1000000 1000001 (nworld_AB\<lparr>ncfg := nconf_AB\<lparr>secretKey := []\<rparr>\<rparr>)
       = (Inl (Error credentials_not_configured), nworld_AB\<lparr>ncfg := nconf_AB\<lparr>secretKey := []\<rparr>\<rparr>)
   \<and> apiRequest demo_axios 1000000 1000001 ''GET'' ''/institutions/'' JNull
         (Some [(''country'', JStr ''GB'')]) (nworld_AB\<lparr>ncfg := nconf_AB\<lparr>secretKey := []\<rparr>\<rparr>)
       = (Inl (Error credentials_not_configured), nworld_AB\<lparr>ncfg := nconf_AB\<lparr>secretKey := []\<rparr>\<rparr>)
   \<and> fst (ensureAuth demo_env 1000 1000 1001 world_ref0) = Inr (Some ''tok2'') \<and> ''tok2'' \<noteq> []
   \<and> map_of (req_headers (build_request (createClient (cfg (snd (ensureAuth demo_env 1000 1000 1001 world_ref0))))
        ''GET'' ''/api/v2/institutions/'' no_options)) ''Authorization'' = Some ''Bearer tok2''"
  using request_bearer_token [of demo_axios 1000000 1000001 nworld_AB
      "Error credentials_not_configured"
      "\<lparr>ncfg = \<lparr>secretId = ''A'', secretKey = ''B'', accessToken = ''tok1'',
                 refreshToken = ''ref1'', tokenExpiry = 4600001\<rparr>,
         nnet = [token_new_call ''A'' ''B'']\<rparr>"
      "''GET''" "''/institutions/''" JNull "Some [(''country'', JStr ''GB'')]" "''tok1''"
      "fetch demo_env"
      "createClient (cfg (snd (ensureAuth demo_env 1000 1000 1001 world_ref0)))"
      "''GET''" "''/api/v2/institutions/''" no_options "[]" demo_env 1000 1000 1001 world_ref0]
    request_bearer_token [of demo_axios 1000000 1000001 "nworld_AB\<lparr>ncfg := nconf_AB\<lparr>secretKey := []\<rparr>\<rparr>"
      "Error credentials_not_configured"
      "nworld_AB\<lparr>ncfg := nconf_AB\<lparr>secretKey := []\<rparr>\<rparr>"
      "''GET''" "''/institutions/''" JNull "Some [(''country'', JStr ''GB'')]" "''tok2''"
      "fetch demo_env"
      "createClient (cfg (snd (ensureAuth demo_env 1000 1000 1001 world_ref0)))"
      "''GET''" "''/api/v2/institutions/''" no_options "[]" demo_env 1000 1000 1001 world_ref0]
  by (simp add: ensureAuth_def isAccessTokenValid_def isRefreshTokenValid_def get_auth_def set_auth_def
  creds_AB_def empty_auth_def truthy_str_def truthy_num_def
  getAccessToken_def refreshAccessToken_def obtainAccessToken_def hasValidToken_def
  nworld_AB_def world_ref0_def nconf_AB_def
  demo_axios_def demo_env_def tok1_def tok2_def Let_def api_config_def NORDIGEN_BASE_URL_def
  api_refreshToken_def no_options_def)

text \<open>
  The claim as stated fails for \<^verbatim>\<open>NordigenAPI.request\<close>: with nothing stored it sends the
  request, with no \<^verbatim>\<open>Authorization\<close> header and no call to a token endpoint.
\<close>

theorem request_without_token_counterexample:
  "request (fetch demo_env) (createClient empty_store) ''GET'' ''/api/v2/institutions/'' no_options []
     = (Inl (Error ''connect ECONNREFUSED''),
        [\<lparr>req_method = ''GET'', req_url = ''https://ob.nordigen.com/api/v2/institutions/'',
          req_headers = [(''Content-Type'', ''application/json''), (''Accept'', ''application/json'')],
          req_body = None\<rparr>])"
  by (simp add: request_def build_request_def createClient_def NordigenAPI_def getStoredToken_def
      get_auth_def empty_store_def truthy_str_def no_options_def url_toString_def BASE_URL_def
      demo_env_def handle_response_def Let_def)

section \<open>Errors of a request\<close>

lemma request_eq:
  "request fch this m ep options log
     = (handle_response (fch (build_request this m ep options)),
        log @ [build_request this m ep options])"
  by (simp add: request_def Let_def)

lemma handle_response_not_ok:
  "\<not> resp_ok response \<Longrightarrow> isl (handle_response (Inr response))"
  by (simp add: handle_response_def split: option.splits)

lemma handle_response_error:
  "\<not> resp_ok response \<Longrightarrow> response_data response = Some data \<Longrightarrow> \<not> nullish data \<Longrightarrow>
   handle_response (Inr response)
     = Inl \<lparr>message = http_error_message response data, status = Some (resp_status response)\<rparr>"
  by (simp add: handle_response_def)

lemma handle_response_ok:
  "resp_ok response \<Longrightarrow> response_data response = Some data \<Longrightarrow>
   handle_response (Inr response) = Inr data"
  by (simp add: handle_response_def)

lemma handle_response_rejected:
  "handle_response (Inl failure) = Inl \<lparr>message = failure, status = None\<rparr>"
  by (simp add: handle_response_def Error_def)

lemma handle_response_unauthorized:
  "handle_response (Inr unauthorized_response)
     = Inl \<lparr>message = ''Invalid token'', status = Some 401\<rparr>"
  by (simp add: handle_response_def unauthorized_response_def response_data_def resp_ok_def
      http_error_message_def js_or_def)

lemma http_error_message_cases:
  "js_prop ''summary'' data = JStr s \<Longrightarrow> s \<noteq> [] \<Longrightarrow> http_error_message response data = s"
  "\<not> js_truthy (js_prop ''summary'' data) \<Longrightarrow> js_prop ''detail'' data = JStr d \<Longrightarrow> d \<noteq> [] \<Longrightarrow>
     http_error_message response data = d"
  "\<not> js_truthy (js_prop ''summary'' data) \<Longrightarrow> \<not> js_truthy (js_prop ''detail'' data) \<Longrightarrow>
     http_error_message response data
       = ''HTTP '' @ string_of_nat (resp_status response) @ '': '' @ resp_statusText response"
  by (simp_all add: http_error_message_def js_or_def)

lemma handleApiError_response:
  "err_response error = Some (st, data) \<Longrightarrow>
   handleApiError aenv error =
     Error (if st = 401 then ''Authentication failed. Run: nordigencom auth login''
            else if st = 403 then ''Access forbidden. Check your API permissions.''
            else if st = 404 then ''Resource not found.''
            else if st = 429 then ''Rate limit exceeded. Please wait before retrying.''
            else ''API Error ('' @ string_of_nat st @ ''): '' @ js_string (api_error_text aenv data))"
  by (simp add: handleApiError_def Let_def)

lemma api_error_text_cases:
  "js_truthy (js_prop ''summary'' data) \<Longrightarrow> api_error_text aenv data = js_prop ''summary'' data"
  "\<not> js_truthy (js_prop ''summary'' data) \<Longrightarrow> js_truthy (js_prop ''detail'' data) \<Longrightarrow>
     api_error_text aenv data = js_prop ''detail'' data"
  "\<not> js_truthy (js_prop ''summary'' data) \<Longrightarrow> \<not> js_truthy (js_prop ''detail'' data) \<Longrightarrow>
     js_truthy (js_prop ''message'' data) \<Longrightarrow> api_error_text aenv data = js_prop ''message'' data"
  "\<not> js_truthy (js_prop ''summary'' data) \<Longrightarrow> \<not> js_truthy (js_prop ''detail'' data) \<Longrightarrow>
     \<not> js_truthy (js_prop ''message'' data) \<Longrightarrow> api_error_text aenv data = JSON_stringify aenv data"
  by (simp_all add: api_error_text_def js_or_def)

lemma handleApiError_no_response:
  "err_response error = None \<Longrightarrow> err_request error \<Longrightarrow>
   handleApiError aenv error = \<lparr>message = no_response, status = None\<rparr>"
  by (simp add: handleApiError_def Error_def)

lemma handleApiError_status: "status (handleApiError aenv error) = None"
  by (simp add: handleApiError_def Error_def Let_def split: option.splits prod.splits)

lemma handleApiError_response_distinct:
  "err_response error = Some (st, data) \<Longrightarrow>
   message (handleApiError aenv error) \<noteq> no_response"
  by (simp add: handleApiError_response Error_def no_response_def)

lemma apiRequest_rejected:
  "getAccessToken aenv t0 now v = (Inr tok, v1) \<Longrightarrow>
   axios aenv (api_config tok m ep data params) = Inl error \<Longrightarrow>
   apiRequest aenv t0 now m ep data params v
     = (Inl (handleApiError aenv error), v1\<lparr>nnet := nnet v1 @ [api_config tok m ep data params]\<rparr>)"
  by (simp add: apiRequest_def Let_def)

lemma apiRequest_answered:
  "getAccessToken aenv t0 now v = (Inr tok, v1) \<Longrightarrow>
   axios aenv (api_config tok m ep data params) = Inr d \<Longrightarrow>
   apiRequest aenv t0 now m ep data params v
     = (Inr d, v1\<lparr>nnet := nnet v1 @ [api_config tok m ep data params]\<rparr>)"
  by (simp add: apiRequest_def Let_def)

lemma obtainAccessToken_rejected:
  "secretId (ncfg u) \<noteq> [] \<Longrightarrow> secretKey (ncfg u) \<noteq> [] \<Longrightarrow>
   post_token_new aenv (token_new_call (secretId (ncfg u)) (secretKey (ncfg u))) = Inl e \<Longrightarrow>
   fst (obtainAccessToken aenv now u)
     = Inl (Error (''Token request failed: '' @ token_error_msg e))"
  by (simp add: obtainAccessToken_def Let_def)

lemma token_error_msg_no_response:
  "err_response e = None \<Longrightarrow> token_error_msg e = err_message e"
  by (simp add: token_error_msg_def js_or_def)

lemma getAccessToken_error_status:
  "fst (getAccessToken aenv t0 now v) = Inl err \<Longrightarrow> status err = None"
  by (auto simp: getAccessToken_def refreshAccessToken_def obtainAccessToken_def Let_def Error_def
      split: if_splits sum.splits)

lemma apiRequest_error_status:
  "fst (apiRequest aenv t0 now m ep body params v) = Inl err \<Longrightarrow> status err = None"
proof (cases "getAccessToken aenv t0 now v")
  case (Pair res v1)
  assume e: "fst (apiRequest aenv t0 now m ep body params v) = Inl err"
  show ?thesis
  proof (cases res)
    case (Inl e1)
    with Pair e have "err = e1" by (simp add: apiRequest_def)
    moreover from Pair Inl have "fst (getAccessToken aenv t0 now v) = Inl e1" by simp
    ultimately show ?thesis using getAccessToken_error_status [of aenv t0 now v e1] by simp
  next
    case (Inr tok)
    with Pair e show ?thesis
      by (auto simp: apiRequest_def Let_def handleApiError_status split: sum.splits)
  qed
qed

text \<open>
  Claim C7, as amended. When \<^verbatim>\<open>fetch\<close> answers \<^verbatim>\<open>NordigenAPI.request\<close> with a status that is
  not 2xx, \<^verbatim>\<open>request\<close> throws and never returns a value, whatever the body; when the body
  decodes to a value other than \<^verbatim>\<open>null\<close>, the error carries the status and the message taken
  from \<^verbatim>\<open>summary\<close>, else \<^verbatim>\<open>detail\<close>, else the text \<^verbatim>\<open>HTTP <status>: <status text>\<close> (a
  \<^verbatim>\<open>message\<close> field is not read). With a 2xx status \<^verbatim>\<open>request\<close> returns the decoded body. The
  401 response of the test, with the summary \<^verbatim>\<open>Invalid token\<close>, gives that message and the
  status 401. \<^verbatim>\<open>apiRequest\<close>, once the token is resolved, returns the data when \<^verbatim>\<open>axios\<close>
  answers and throws what \<^verbatim>\<open>handleApiError\<close> makes of the error when \<^verbatim>\<open>axios\<close> rejects: a fixed
  message for the statuses 401, 403, 404 and 429, and for any other status
  \<^verbatim>\<open>API Error (<status>): \<close> followed by \<^verbatim>\<open>summary\<close>, else \<^verbatim>\<open>detail\<close>, else \<^verbatim>\<open>message\<close>, else
  the body as JSON text.
\<close>

theorem non_2xx_raises:
  "(fch (build_request this m ep options) = Inr response \<and> \<not> resp_ok response \<longrightarrow>
      isl (fst (request fch this m ep options log))
      \<and> (response_data response = Some data \<and> \<not> nullish data \<longrightarrow>
            fst (request fch this m ep options log)
              = Inl \<lparr>message = http_error_message response data,
                     status = Some (resp_status response)\<rparr>))
   \<and> (fch (build_request this m ep options) = Inr response \<and> resp_ok response
       \<and> response_data response = Some data
      \<longrightarrow> fst (request fch this m ep options log) = Inr data)
   \<and> (js_prop ''summary'' data = JStr s \<and> s \<noteq> [] \<longrightarrow> http_error_message response data = s)
   \<and> (\<not> js_truthy (js_prop ''summary'' data) \<and> js_prop ''detail'' data = JStr d \<and> d \<noteq> []
      \<longrightarrow> http_error_message response data = d)
   \<and> (\<not> js_truthy (js_prop ''summary'' data) \<and> \<not> js_truthy (js_prop ''detail'' data)
      \<longrightarrow> http_error_message response data
           = ''HTTP '' @ string_of_nat (resp_status response) @ '': '' @ resp_statusText response)
   \<and> (fch (build_request this m ep options) = Inr unauthorized_response
      \<longrightarrow> fst (request fch this m ep options log)
           = Inl \<lparr>message = ''Invalid token'', status = Some 401\<rparr>)
   \<and> (getAccessToken aenv t0 now v = (Inr tok, v1)
       \<and> axios aenv (api_config tok am aep body params) = Inl error
      \<longrightarrow> fst (apiRequest aenv t0 now am aep body params v) = Inl (handleApiError aenv error))
   \<and> (getAccessToken aenv t0 now v = (Inr tok, v1)
       \<and> axios aenv (api_config tok am aep body params) = Inr rd
      \<longrightarrow> fst (apiRequest aenv t0 now am aep body params v) = Inr rd)
   \<and> (err_response error = Some (st, edata) \<longrightarrow>
        handleApiError aenv error =
          Error (if st = 401 then ''Authentication failed. Run: nordigencom auth login''
                 else if st = 403 then ''Access forbidden. Check your API permissions.''
                 else if st = 404 then ''Resource not found.''
                 else if st = 429 then ''Rate limit exceeded. Please wait before retrying.''
                 else ''API Error ('' @ string_of_nat st @ ''): ''
                      @ js_string (api_error_text aenv edata)))
   \<and> (js_truthy (js_prop ''summary'' edata)
      \<longrightarrow> api_error_text aenv edata = js_prop ''summary'' edata)
   \<and> (\<not> js_truthy (js_prop ''summary'' edata) \<and> js_truthy (js_prop ''detail'' edata)
      \<longrightarrow> api_error_text aenv edata = js_prop ''detail'' edata)
   \<and> (\<not> js_truthy (js_prop ''summary'' edata) \<and> \<not> js_truthy (js_prop ''detail'' edata)
       \<and> js_truthy (js_prop ''message'' edata)
      \<longrightarrow> api_error_text aenv edata = js_prop ''message'' edata)
   \<and> (\<not> js_truthy (js_prop ''summary'' edata) \<and> \<not> js_truthy (js_prop ''detail'' edata)
       \<and> \<not> js_truthy (js_prop ''message'' edata)
      \<longrightarrow> api_error_text aenv edata = JSON_stringify aenv edata)"
  using handle_response_not_ok [of response]
    handle_response_error [of response data]
    handle_response_ok [of response data]
    handle_response_unauthorized
    http_error_message_cases(1) [of data s response]
    http_error_message_cases(2) [of data d response]
    http_error_message_cases(3) [of data response]
    apiRequest_rejected [of aenv t0 now v tok v1 am aep body params error]
    apiRequest_answered [of aenv t0 now v tok v1 am aep body params rd]
    handleApiError_response [of error st edata aenv]
    api_error_text_cases [of edata aenv]
  by (simp add: request_eq)

theorem non_2xx_raises_witness:
  "fetch boom_env (build_request test_client ''GET'' ''/api/v2/accounts/test'' no_options)
     = Inr server_error_response
   \<and> \<not> resp_ok server_error_response
   \<and> response_data server_error_response = Some (JObj [(''message'', JStr ''boom'')])
   \<and> \<not> nullish (JObj [(''message'', JStr ''boom'')])
   \<and> fst (request (fetch boom_env) test_client ''GET'' ''/api/v2/accounts/test'' no_options [])
       = Inl \<lparr>message = ''HTTP 500: Internal Server Error'', status = Some 500\<rparr>
   \<and> fetch unauthorized_env (build_request test_client ''GET'' ''/api/v2/accounts/test'' no_options)
       = Inr unauthorized_response
   \<and> fst (request (fetch unauthorized_env) test_client ''GET'' ''/api/v2/accounts/test'' no_options [])
       = Inl \<lparr>message = ''Invalid token'', status = Some 401\<rparr>
   \<and> getAccessToken boom_axios 1000000 1000001 nworld_tok0 = (Inr ''tok0'', nworld_tok0)
   \<and> axios boom_axios (api_config ''tok0'' ''GET'' ''/accounts/test/'' JNull None) = Inl boom_500
   \<and> err_response boom_500 = Some (500, JObj [(''detail'', JStr ''boom'')])
   \<and> fst (apiRequest boom_axios 1000000 1000001 ''GET'' ''/accounts/test/'' JNull None nworld_tok0)
       = Inl (Error ''API Error (500): boom'')"
  using non_2xx_raises [of "fetch boom_env" test_client "''GET''" "''/api/v2/accounts/test''"
      no_options server_error_response "[]" "JObj [(''message'', JStr ''boom'')]" "''boom''"
      "''boom''" boom_axios 1000000 1000001 nworld_tok0
      "''tok0''" nworld_tok0 "''GET''" "''/accounts/test/''" JNull None boom_500 JNull 500
      "JObj [(''detail'', JStr ''boom'')]"]
    non_2xx_raises [of "fetch unauthorized_env" test_client "''GET''" "''/api/v2/accounts/test''"
      no_options unauthorized_response "[]" "JObj [(''message'', JStr ''boom'')]" "''boom''"
      "''boom''" boom_axios 1000000 1000001 nworld_tok0
      "''tok0''" nworld_tok0 "''GET''" "''/accounts/test/''" JNull None boom_500 JNull 500
      "JObj [(''detail'', JStr ''boom'')]"]
  by (simp add: server_error_response_def response_data_def resp_ok_def digit_def
      string_of_nat.simps api_error_text_def js_or_def Error_def getAccessToken_def
      hasValidToken_def nworld_tok0_def nconf_AB_def demo_axios_def demo_env_def
      boom_axios_def boom_500_def boom_env_def unauthorized_env_def)

text \<open>
  The claim as stated fails for \<^verbatim>\<open>apiRequest\<close>: on the status 401 the message is the fixed
  one, whatever the summary of the body says.
\<close>

theorem unauthorized_message_counterexample:
  "err_response invalid_token_401 = Some (401, JObj [(''summary'', JStr ''Invalid token'')])
   \<and> fst (apiRequest demo_axios 1000000 1000001 ''GET'' ''/accounts/test/'' JNull None nworld_tok0)
       = Inl (Error ''Authentication failed. Run: nordigencom auth login'')
   \<and> \<not> str_includes ''Authentication failed. Run: nordigencom auth login'' ''Invalid token''"
  by (simp add: apiRequest_def getAccessToken_def hasValidToken_def nworld_tok0_def nconf_AB_def
      demo_axios_def invalid_token_401_def handleApiError_def Let_def)

text \<open>
  Claim C8, as amended. When the token is resolved and \<^verbatim>\<open>axios\<close> rejects the request without
  a response, the request having been sent, \<^verbatim>\<open>apiRequest\<close> throws the error with the
  no-response message; when \<^verbatim>\<open>axios\<close> rejects with a response the message is another one, and
  when \<^verbatim>\<open>axios\<close> answers \<^verbatim>\<open>apiRequest\<close> returns the data. When resolving the token fails,
  \<^verbatim>\<open>apiRequest\<close> throws the error of \<^verbatim>\<open>getAccessToken\<close>, which for a rejected call of the token
  endpoint is \<^verbatim>\<open>Token request failed: \<close> and the cause, with or without a response. No error
  of \<^verbatim>\<open>apiRequest\<close> has a status property. \<^verbatim>\<open>NordigenAPI.request\<close> throws a rejected \<^verbatim>\<open>fetch\<close>
  on with no status, whereas its error for a status that is not 2xx, the body decoding to a
  value other than \<^verbatim>\<open>null\<close>, carries the status.
\<close>

theorem network_failure_raises:
  "(getAccessToken aenv t0 now v = (Inr tok, v1)
      \<and> axios aenv (api_config tok am aep body params) = Inl error
      \<and> err_response error = None \<and> err_request error
      \<longrightarrow> apiRequest aenv t0 now am aep body params v
           = (Inl \<lparr>message = no_response, status = None\<rparr>,
              v1\<lparr>nnet := nnet v1 @ [api_config tok am aep body params]\<rparr>))
   \<and> (getAccessToken aenv t0 now v = (Inr tok, v1)
       \<and> axios aenv (api_config tok am aep body params) = Inl error
       \<and> err_response error = Some (st, edata)
      \<longrightarrow> fst (apiRequest aenv t0 now am aep body params v) = Inl (handleApiError aenv error)
          \<and> message (handleApiError aenv error) \<noteq> no_response)
   \<and> (getAccessToken aenv t0 now v = (Inr tok, v1)
       \<and> axios aenv (api_config tok am aep body params) = Inr rd
      \<longrightarrow> fst (apiRequest aenv t0 now am aep body params v) = Inr rd)
   \<and> (getAccessToken aenv t0 now v = (Inl terr, v1)
      \<longrightarrow> apiRequest aenv t0 now am aep body params v = (Inl terr, v1))
   \<and> (secretId (ncfg u) \<noteq> [] \<and> secretKey (ncfg u) \<noteq> []
       \<and> post_token_new aenv (token_new_call (secretId (ncfg u)) (secretKey (ncfg u))) = Inl te
      \<longrightarrow> fst (obtainAccessToken aenv now u)
            = Inl (Error (''Token request failed: '' @ token_error_msg te))
          \<and> (err_response te = None \<longrightarrow> token_error_msg te = err_message te))
   \<and> (fst (apiRequest aenv t0 now am aep body params v) = Inl err \<longrightarrow> status err = None)
   \<and> (fch (build_request this m ep options) = Inl failure
      \<longrightarrow> request fch this m ep options log
           = (Inl \<lparr>message = failure, status = None\<rparr>, log @ [build_request this m ep options]))
   \<and> (fch (build_request this m ep options) = Inr response \<and> \<not> resp_ok response
       \<and> response_data response = Some data \<and> \<not> nullish data
      \<longrightarrow> fst (request fch this m ep options log)
           = Inl \<lparr>message = http_error_message response data,
                  status = Some (resp_status response)\<rparr>)"
  using handleApiError_no_response [of error aenv]
    handleApiError_response_distinct [of error st edata aenv]
    apiRequest_rejected [of aenv t0 now v tok v1 am aep body params error]
    apiRequest_answered [of aenv t0 now v tok v1 am aep body params rd]
    apiRequest_token_error [of aenv t0 now v terr v1 am aep body params]
    obtainAccessToken_rejected [of u aenv te now]
    token_error_msg_no_response [of te]
    apiRequest_error_status [of aenv t0 now am aep body params v err]
    handle_response_rejected [of failure]
    handle_response_error [of response data]
  by (simp add: request_eq)

theorem network_failure_raises_witness:
  "getAccessToken offline_axios 1000000 1000001 nworld_tok0 = (Inr ''tok0'', nworld_tok0)
   \<and> axios offline_axios (api_config ''tok0'' ''GET'' ''/accounts/test/'' JNull None)
       = Inl connection_refused
   \<and> err_response connection_refused = None \<and> err_request connection_refused
   \<and> fst (apiRequest offline_axios 1000000 1000001 ''GET'' ''/accounts/test/'' JNull None nworld_tok0)
       = Inl \<lparr>message = ''No response from Nordigen API. Check your internet connection.'',
              status = None\<rparr>
   \<and> getAccessToken demo_axios 1000000 1000001 nworld_tok0 = (Inr ''tok0'', nworld_tok0)
   \<and> axios demo_axios (api_config ''tok0'' ''GET'' ''/accounts/test/'' JNull None)
       = Inl invalid_token_401
   \<and> err_response invalid_token_401 = Some (401, JObj [(''summary'', JStr ''Invalid token'')])
   \<and> message (handleApiError demo_axios invalid_token_401) \<noteq> no_response
   \<and> secretId (ncfg nworld_AB) \<noteq> [] \<and> secretKey (ncfg nworld_AB) \<noteq> []
   \<and> post_token_new offline_axios (token_new_call (secretId (ncfg nworld_AB)) (secretKey (ncfg nworld_AB)))
       = Inl connection_refused
   \<and> fst (obtainAccessToken offline_axios 1000001 nworld_AB)
       = Inl (Error ''Token request failed: connect ECONNREFUSED'')
   \<and> fetch demo_env (build_request test_client ''GET'' ''/api/v2/accounts/test'' no_options)
       = Inl ''connect ECONNREFUSED''
   \<and> fst (request (fetch demo_env) test_client ''GET'' ''/api/v2/accounts/test'' no_options [])
       = Inl \<lparr>message = ''connect ECONNREFUSED'', status = None\<rparr>
   \<and> fetch unauthorized_env (build_request test_client ''GET'' ''/api/v2/accounts/test'' no_options)
       = Inr unauthorized_response
   \<and> \<not> resp_ok unauthorized_response
   \<and> fst (request (fetch unauthorized_env) test_client ''GET'' ''/api/v2/accounts/test'' no_options [])
       = Inl \<lparr>message = ''Invalid token'', status = Some 401\<rparr>"
  using network_failure_raises [of offline_axios 1000000 1000001 nworld_tok0 "''tok0''" nworld_tok0
      "''GET''" "''/accounts/test/''" JNull None connection_refused 401
      "JObj [(''summary'', JStr ''Invalid token'')]" JNull "Error []" nworld_AB connection_refused
      "\<lparr>message = no_response, status = None\<rparr>" "fetch demo_env" test_client "''GET''"
      "''/api/v2/accounts/test''" no_options "''connect ECONNREFUSED''" "[]" unauthorized_response
      "JObj [(''status_code'', JNum 401), (''summary'', JStr ''Invalid token''),
             (''detail'', JStr ''Token is invalid or expired'')]"]
    network_failure_raises [of demo_axios 1000000 1000001 nworld_tok0 "''tok0''" nworld_tok0
      "''GET''" "''/accounts/test/''" JNull None invalid_token_401 401
      "JObj [(''summary'', JStr ''Invalid token'')]" JNull "Error []" nworld_AB connection_refused
      "\<lparr>message = no_response, status = None\<rparr>" "fetch unauthorized_env" test_client "''GET''"
      "''/api/v2/accounts/test''" no_options "''connect ECONNREFUSED''" "[]" unauthorized_response
      "JObj [(''status_code'', JNum 401), (''summary'', JStr ''Invalid token''),
             (''detail'', JStr ''Token is invalid or expired'')]"]
  by (simp add: connection_refused_def invalid_token_401_def offline_axios_def demo_axios_def
      no_response_def getAccessToken_def hasValidToken_def nworld_tok0_def nworld_AB_def nconf_AB_def
      demo_env_def unauthorized_env_def unauthorized_response_def response_data_def resp_ok_def
      http_error_message_def js_or_def)

text \<open>
  The claim as stated fails for \<^verbatim>\<open>apiRequest\<close>: when no token is stored and nothing answers,
  the error is the one of the token request, with the same form as when the token endpoint
  answers with the status 401, and not the no-response error.
\<close>

theorem token_call_network_failure_counterexample:
  "\<not> hasValidToken (ncfg nworld_AB) 1000000
   \<and> post_token_new offline_axios (token_new_call ''A'' ''B'') = Inl connection_refused
   \<and> err_response connection_refused = None
   \<and> apiRequest offline_axios 1000000 1000001 ''GET'' ''/accounts/test/'' JNull None nworld_AB
       = (Inl (Error ''Token request failed: connect ECONNREFUSED''),
          \<lparr>ncfg = nconf_AB, nnet = [token_new_call ''A'' ''B'']\<rparr>)
   \<and> ''Token request failed: connect ECONNREFUSED'' \<noteq> no_response
   \<and> post_token_new locked_axios (token_new_call ''A'' ''B'') = Inl invalid_token_401
   \<and> fst (apiRequest locked_axios 1000000 1000001 ''GET'' ''/accounts/test/'' JNull None nworld_AB)
       = Inl (Error ''Token request failed: Invalid token'')"
  by (simp add: apiRequest_def getAccessToken_def refreshAccessToken_def obtainAccessToken_def
      hasValidToken_def nworld_AB_def nconf_AB_def offline_axios_def locked_axios_def demo_axios_def
      connection_refused_def invalid_token_401_def token_error_msg_def js_or_def no_response_def
      Let_def)

section \<open>The query string\<close>

lemma str_includes_prefix: "str_includes (p @ ys) p"
proof (cases "p @ ys")
  case Nil
  then show ?thesis by simp
next
  case (Cons a list)
  have "take (length p) (p @ ys) = p" by simp
  with Cons show ?thesis by simp
qed

lemma str_includes_append: "str_includes (xs @ p @ ys) p"
proof (induction xs)
  case Nil
  show ?case by (simp add: str_includes_prefix)
next
  case (Cons x xs)
  then show ?case by simp
qed

lemma join_amp_member: "x \<in> set xs \<Longrightarrow> \<exists>pre post. join_amp xs = pre @ x @ post"
proof (induction xs rule: join_amp.induct)
  case 1
  then show ?case by simp
next
  case (2 y)
  then have "join_amp [y] = [] @ x @ []" by simp
  then show ?case by blast
next
  case (3 y z zs)
  show ?case
  proof (cases "x = y")
    case True
    then have "join_amp (y # z # zs) = [] @ x @ (''&'' @ join_amp (z # zs))" by simp
    then show ?thesis by blast
  next
    case False
    with 3 obtain pre post where "join_amp (z # zs) = pre @ x @ post" by auto
    then have "join_amp (y # z # zs) = (y @ ''&'' @ pre) @ x @ post" by simp
    then show ?thesis by blast
  qed
qed

lemma nullish_iff: "nullish v \<longleftrightarrow> v = JUndefined \<or> v = JNull"
  by (cases v) simp_all

lemma searchParams_eq:
  "searchParams query
     = map (\<lambda>kv. (fst kv, js_string (snd kv))) (filter (\<lambda>kv. \<not> nullish (snd kv)) query)"
  by (induction query) (auto simp: searchParams_def nullish_iff)

lemma searchParams_kept:
  "(k, v) \<in> set query \<Longrightarrow> \<not> nullish v \<Longrightarrow> (k, js_string v) \<in> set (searchParams query)"
  by (force simp: searchParams_def nullish_iff)

lemma searchParams_omitted:
  "(k, v) \<in> set query \<Longrightarrow> nullish v \<Longrightarrow> distinct (map fst query) \<Longrightarrow>
   k \<notin> fst ` set (searchParams query)"
proof
  assume kv: "(k, v) \<in> set query" and n: "nullish v" and d: "distinct (map fst query)"
    and "k \<in> fst ` set (searchParams query)"
  then obtain v' where v': "(k, v') \<in> set query" "\<not> nullish v'"
    by (auto simp: searchParams_def nullish_iff)
  from d kv v'(1) have "v = v'" by (meson eq_key_imp_eq_value)
  with n v'(2) show False by simp
qed

lemma url_includes_pair:
  assumes "(k, s) \<in> set ps"
  shows "str_includes (url_toString base ep ps) (form_pair (k, s))"
proof -
  from assms have ne: "ps \<noteq> []" by auto
  from assms have "form_pair (k, s) \<in> set (map form_pair ps)" by force
  then obtain pre post where "join_amp (map form_pair ps) = pre @ form_pair (k, s) @ post"
    using join_amp_member by blast
  then have "url_toString base ep ps = (base @ ep @ ''?'' @ pre) @ form_pair (k, s) @ post"
    using ne by (simp add: url_toString_def search_string_def)
  then show ?thesis by (simp only: str_includes_append)
qed

lemma build_request_url:
  "opt_query options = Some query \<Longrightarrow>
   req_url (build_request (NordigenAPI a s) m ep options)
     = BASE_URL @ ep @ (if searchParams query = [] then []
                        else ''?'' @ search_string (searchParams query))"
  by (simp add: build_request_def Let_def NordigenAPI_def url_toString_def)

lemma build_request_url_includes:
  assumes "opt_query options = Some query" "(k, v) \<in> set query" "\<not> nullish v"
  shows "str_includes (req_url (build_request (NordigenAPI a s) m ep options))
           (form_encode k @ ''='' @ form_encode (js_string v))"
proof -
  have "req_url (build_request (NordigenAPI a s) m ep options)
          = url_toString BASE_URL ep (searchParams query)"
    using assms(1) by (simp add: build_request_def Let_def NordigenAPI_def)
  then show ?thesis
    using url_includes_pair [OF searchParams_kept [OF assms(2,3)], of BASE_URL ep]
    by (simp add: form_pair_def)
qed

lemma institutions_request:
  "t \<noteq> [] \<Longrightarrow>
   build_request (NordigenAPI (Some t) s) ''GET'' ''/institutions/''
     \<lparr>opt_body = JUndefined, opt_query = Some [(''country'', JStr ''GB'')], opt_auth = None\<rparr>
   = \<lparr>req_method = ''GET'', req_url = ''https://ob.nordigen.com/institutions/?country=GB'',
      req_headers = [(''Content-Type'', ''application/json''), (''Accept'', ''application/json''),
                     (''Authorization'', ''Bearer '' @ t)],
      req_body = None\<rparr>"
  by (simp add: build_request_def Let_def url_toString_def searchParams_def search_string_def
      form_pair_def form_encode_def form_encode_char_def form_safe_def BASE_URL_def truthy_str_def
      NordigenAPI_def)

lemma path_safe_institutions: "path_safe ''/institutions/''"
  by (simp add: path_safe_def path_char_def)

lemma form_encode_example: "form_encode ''a b&c'' = ''a+b%26c''"
  by (simp add: form_encode_def form_encode_char_def form_safe_def digit_def)

text \<open>
  Claim C9. \<^verbatim>\<open>request\<close> of a client made by the constructor, for an endpoint that is a plain
  path and a query object, sends one request, whose URL is the base URL, the endpoint and,
  after \<^verbatim>\<open>?\<close>, the search parameters: these are the entries of the query whose value is
  neither \<^verbatim>\<open>undefined\<close> nor \<^verbatim>\<open>null\<close>, in order, each with its value as a string, and the URL
  includes the encoded \<^verbatim>\<open>name=value\<close> of each; the name of an entry whose value is
  \<^verbatim>\<open>undefined\<close> or \<^verbatim>\<open>null\<close> is not among them. \<^verbatim>\<open>request('GET', '/institutions/', {query:
  {country: 'GB'}})\<close> of a client with the token \<open>t\<close> sends the URL ending in
  \<^verbatim>\<open>?country=GB\<close> and the header \<^verbatim>\<open>Authorization: Bearer t\<close>.
\<close>

theorem query_serialization:
  "(opt_query options = Some query \<and> path_safe ep \<longrightarrow>
      snd (request fch (NordigenAPI a s) m ep options log)
        = log @ [build_request (NordigenAPI a s) m ep options]
      \<and> req_url (build_request (NordigenAPI a s) m ep options)
          = BASE_URL @ ep @ (if searchParams query = [] then []
                             else ''?'' @ search_string (searchParams query))
      \<and> searchParams query
          = map (\<lambda>kv. (fst kv, js_string (snd kv))) (filter (\<lambda>kv. \<not> nullish (snd kv)) query)
      \<and> ((k, v) \<in> set query \<and> \<not> nullish v
          \<longrightarrow> (k, js_string v) \<in> set (searchParams query)
              \<and> str_includes (req_url (build_request (NordigenAPI a s) m ep options))
                   (form_encode k @ ''='' @ form_encode (js_string v)))
      \<and> ((k, v) \<in> set query \<and> nullish v \<and> distinct (map fst query)
          \<longrightarrow> k \<notin> fst ` set (searchParams query)))
   \<and> path_safe ''/institutions/''
   \<and> (t \<noteq> [] \<longrightarrow>
        snd (request fch (NordigenAPI (Some t) s) ''GET'' ''/institutions/''
               \<lparr>opt_body = JUndefined, opt_query = Some [(''country'', JStr ''GB'')],
                opt_auth = None\<rparr> log)
        = log @ [\<lparr>req_method = ''GET'',
                   req_url = ''https://ob.nordigen.com/institutions/?country=GB'',
                   req_headers = [(''Content-Type'', ''application/json''),
                                  (''Accept'', ''application/json''),
                                  (''Authorization'', ''Bearer '' @ t)],
                   req_body = None\<rparr>])
   \<and> form_encode ''a b&c'' = ''a+b%26c''"
  using build_request_url [of options query a s m ep]
    build_request_url_includes [of options query k v a s m ep]
    searchParams_eq [of query] searchParams_kept [of k v query]
    searchParams_omitted [of k v query] institutions_request [of t s]
    path_safe_institutions form_encode_example
  by (simp add: request_eq)

theorem query_serialization_witness:
  "opt_query (no_options\<lparr>opt_query := Some test_query\<rparr>) = Some test_query
   \<and> path_safe ''/api/v2/institutions/''
   \<and> (''country'', JStr ''GB'') \<in> set test_query \<and> \<not> nullish (JStr ''GB'')
   \<and> (''date_from'', JUndefined) \<in> set test_query \<and> nullish JUndefined
   \<and> distinct (map fst test_query)
   \<and> map req_url (snd (request (fetch demo_env) (NordigenAPI (Some ''test-token'') empty_store) ''GET''
                          ''/api/v2/institutions/'' (no_options\<lparr>opt_query := Some test_query\<rparr>) []))
       = [''https://ob.nordigen.com/api/v2/institutions/?country=GB&limit=10&q=a+b%26c'']
   \<and> str_includes ''https://ob.nordigen.com/api/v2/institutions/?country=GB&limit=10&q=a+b%26c''
        ''country=GB''
   \<and> ''date_from'' \<notin> fst ` set (searchParams test_query)
   \<and> ''test-token'' \<noteq> []
   \<and> map req_headers
        (snd (request (fetch demo_env) (NordigenAPI (Some ''test-token'') empty_store) ''GET''
                ''/institutions/''
                \<lparr>opt_body = JUndefined, opt_query = Some [(''country'', JStr ''GB'')],
                 opt_auth = None\<rparr> []))
       = [[(''Content-Type'', ''application/json''), (''Accept'', ''application/json''),
           (''Authorization'', ''Bearer test-token'')]]"
  using query_serialization [of "no_options\<lparr>opt_query := Some test_query\<rparr>" test_query
      "''/api/v2/institutions/''" "fetch demo_env" "Some ''test-token''" empty_store "''GET''" "[]"
      "''country''" "JStr ''GB''" "''test-token''"]
    query_serialization [of "no_options\<lparr>opt_query := Some test_query\<rparr>" test_query
      "''/api/v2/institutions/''" "fetch demo_env" "Some ''test-token''" empty_store "''GET''" "[]"
      "''date_from''" JUndefined "''test-token''"]
  by (simp add: test_query_def no_options_def BASE_URL_def path_safe_def path_char_def
      searchParams_def search_string_def form_pair_def form_encode_def
      form_encode_char_def form_safe_def string_of_int_def string_of_nat.simps digit_def)

end
